theory Spec2Isabelle
  imports Main "HOL-Library.AList" "HOL-Library.List_Lexorder" "HOL-Library.Char_ord"
begin

section \<open>The pool service of x/gamm/keeper/pool/service\_pool.go\<close>

text \<open>
  The file embeds \<^verbatim>\<open>poolService\<close>: \<^verbatim>\<open>CreatePool\<close>, the three joins, the three
  exits and the two helpers \<^verbatim>\<open>joinPool\<close> and \<^verbatim>\<open>exitPool\<close>. Every Go function is a HOL
  function of the same name that takes the state of the chain and returns either an error
  or its result with the new state. An error carries no state: the host transaction
  discards every write of a call that fails. A Go \<^verbatim>\<open>map\<close> is a reference: the pool
  struct is passed by value, the map in it is shared. The state therefore holds a heap of
  maps, and a pool in memory holds the address of its \<^verbatim>\<open>Records\<close>.
\<close>

subsection \<open>Errors\<close>

text \<open>
  \<^verbatim>\<open>sdkerrors.Wrapf(types.ErrX, msg)\<close> is the constructor \<open>ErrX msg\<close>. \<open>ErrNotFound\<close> is
  the pool store's error, \<open>ErrBank\<close> carries the message of a failed bank call, and \<open>Panic\<close> is a
  Go panic (it unwinds the call, so it is one more way of not returning a result).
\<close>

datatype error =
    ErrInvalidRequest string
  | ErrNotBound string
  | ErrMathApprox string
  | ErrLimitExceed string
  | ErrLimitIn string
  | ErrLimitOut string
  | ErrMaxInRatio string
  | ErrMaxOutRatio string
  | ErrNotFound string
  | ErrBank string
  | Panic string

subsection \<open>sdk.Int and sdk.Dec\<close>

text \<open>
  Modelled from the spec: the types \<^verbatim>\<open>sdk.Int\<close> and \<^verbatim>\<open>sdk.Dec\<close> of the Cosmos SDK, which
  the source imports. \<^verbatim>\<open>Int\<close> is an arbitrary-precision signed integer (\<open>int\<close>).
  \<^verbatim>\<open>Dec\<close> is a signed decimal with 18 fractional digits over a wide integer: \<open>Dec n\<close>
  is the number \<open>n / 10^18\<close>. Multiplication, division and the conversion to \<^verbatim>\<open>Int\<close>
  truncate toward zero; division by zero panics.
\<close>

definition tquo :: "int \<Rightarrow> int \<Rightarrow> int" where
  "tquo a b = sgn a * sgn b * (\<bar>a\<bar> div \<bar>b\<bar>)"

datatype Dec = Dec (atto: int)

definition precision :: int where
  "precision = 1000000000000000000"

definition NewDec :: "int \<Rightarrow> Dec" where
  "NewDec i = Dec (i * precision)"

definition ToDec :: "int \<Rightarrow> Dec" where
  "ToDec i = NewDec i"

definition Dec_Add :: "Dec \<Rightarrow> Dec \<Rightarrow> Dec" where
  "Dec_Add d d2 = Dec (atto d + atto d2)"

definition Mul :: "Dec \<Rightarrow> Dec \<Rightarrow> Dec" where
  "Mul d d2 = Dec (tquo (atto d * atto d2) precision)"

definition Quo :: "Dec \<Rightarrow> Dec \<Rightarrow> error + Dec" where
  "Quo d d2 =
     (if atto d2 = 0 then Inl (Panic ''division by zero'')
      else Inr (Dec (tquo (atto d * precision) (atto d2))))"

definition TruncateInt :: "Dec \<Rightarrow> int" where
  "TruncateInt d = tquo (atto d) precision"

definition GT :: "Dec \<Rightarrow> Dec \<Rightarrow> bool" where
  "GT d d2 = (atto d > atto d2)"

definition NewIntWithDecimal :: "int \<Rightarrow> nat \<Rightarrow> int" where
  "NewIntWithDecimal n dec = n * 10 ^ dec"

text \<open>
  Modelled from the spec: the constants \<^verbatim>\<open>maxInRatio\<close> and \<^verbatim>\<open>maxOutRatio\<close>, declared
  elsewhere in the package. The spec gives \<open>1/2\<close> and \<open>1/3\<close>; as decimals of 18 digits
  they are \<open>0.5\<close> and \<open>0.333333333333333333\<close>.
\<close>

definition maxInRatio :: Dec where
  "maxInRatio = Dec 500000000000000000"

definition maxOutRatio :: Dec where
  "maxOutRatio = Dec 333333333333333333"

subsection \<open>The data of package types\<close>

type_synonym AccAddress = string

record Coin =
  Denom :: string
  Amount :: int

record LPTokenInfo =
  info_Denom :: string
  info_Description :: string

record BindTokenInfo =
  bind_Denom :: string
  Weight :: Dec
  bind_Amount :: int

record MaxAmountIn =
  max_Denom :: string
  MaxAmount :: int

record MinAmountOut =
  min_Denom :: string
  MinAmount :: int

record Record =
  DenormalizedWeight :: Dec
  Balance :: int

record LP =
  lp_Denom :: string
  Description :: string
  TotalSupply :: int

text \<open>
  \<open>'r Pool\<close> is \<^verbatim>\<open>types.Pool\<close>. In memory \<open>'r\<close> is the address of the records map
  (\<open>nat Pool\<close>); in the key-value store the pool is serialised, so the map is held by
  value (\<open>stored_pool\<close>).
\<close>

record 'r Pool =
  Id :: nat
  SwapFee :: Dec
  Token :: LP
  TotalWeight :: Dec
  Records :: 'r

subsection \<open>Go maps\<close>

text \<open>
  A Go map is an association list read through \<open>map_of\<close> and written with
  \<open>AList.update\<close> (\<^verbatim>\<open>m[k] = v\<close>): the first pair of a key is the only one that counts.
  \<open>len_map\<close> is \<^verbatim>\<open>len(m)\<close>, and \<open>range_map\<close> lists the entries a \<^verbatim>\<open>range\<close> loop visits,
  each key once. Go visits them in no fixed order; the two loops of the source that range
  over a map add up weights and build a coin list that is sorted afterwards.
\<close>

type_synonym 'v gomap = "(string \<times> 'v) list"

definition range_map :: "'v gomap \<Rightarrow> (string \<times> 'v) list" where
  "range_map m = AList.clearjunk m"

definition len_map :: "'v gomap \<Rightarrow> nat" where
  "len_map m = length (range_map m)"

type_synonym stored_pool = "Record gomap Pool"

subsection \<open>The state: bank, heap of maps, pool store\<close>

text \<open>
  \<open>bank\<close> is the state of the external bank, \<open>heap\<close> holds the Go maps by address,
  \<open>heap_next\<close> is the next free address. \<open>kv\<close>, \<open>next_pool_number\<close> and \<open>writes\<close> are
  the pool store: the pools by id, the counter of pool numbers, and the log of every pool
  that \<^verbatim>\<open>StorePool\<close> has written, oldest first.
\<close>

record 'b state =
  bank :: 'b
  heap :: "nat \<Rightarrow> Record gomap"
  heap_next :: nat
  kv :: "nat \<rightharpoonup> stored_pool"
  next_pool_number :: nat
  writes :: "stored_pool list"

text \<open>
  Modelled from the spec: the pool store (\<^verbatim>\<open>p.store\<close>), whose code is not in the file.
  \<^verbatim>\<open>fetch_pool\<close> returns the pool or NotFound; the pool it returns is decoded from the
  store, so its records are a fresh map. \<^verbatim>\<open>store_pool\<close> writes the pool through, under its
  id, with the records the map holds at that moment. \<^verbatim>\<open>next_pool_number\<close> returns a
  number and consumes it.
\<close>

definition snapshot :: "'b state \<Rightarrow> nat Pool \<Rightarrow> stored_pool" where
  "snapshot s pool =
     \<lparr>Id = Id pool, SwapFee = SwapFee pool, Token = Token pool,
      TotalWeight = TotalWeight pool, Records = heap s (Records pool)\<rparr>"

definition FetchPool :: "nat \<Rightarrow> 'b state \<Rightarrow> error + (nat Pool \<times> 'b state)" where
  "FetchPool poolId s =
     (case kv s poolId of
        None \<Rightarrow> Inl (ErrNotFound ''pool not found'')
      | Some sp \<Rightarrow>
          Inr (\<lparr>Id = Id sp, SwapFee = SwapFee sp, Token = Token sp,
                TotalWeight = TotalWeight sp, Records = heap_next s\<rparr>,
               s\<lparr>heap := (heap s)(heap_next s := Records sp),
                 heap_next := Suc (heap_next s)\<rparr>))"

definition StorePool :: "nat Pool \<Rightarrow> 'b state \<Rightarrow> 'b state" where
  "StorePool pool s =
     s\<lparr>kv := (kv s)(Id pool \<mapsto> snapshot s pool),
       writes := writes s @ [snapshot s pool]\<rparr>"

definition GetNextPoolNumber :: "'b state \<Rightarrow> nat \<times> 'b state" where
  "GetNextPoolNumber s =
     (next_pool_number s, s\<lparr>next_pool_number := Suc (next_pool_number s)\<rparr>)"

subsection \<open>The collaborators of the service\<close>

text \<open>
  The share ledger (\<^verbatim>\<open>lpService\<close>), the bank keeper and the four formulas of the pool
  math are not in the file; the service is modelled for any of them. The ledger and the
  bank act on the bank's state only; a call returns the new state of the bank or fails
  with a message, which the service passes through as \<open>ErrBank\<close>. A formula returns a
  decimal or an error of its own (it divides and raises to a power, so it may panic).
\<close>

record 'b env =
  mintPoolShare :: "string \<Rightarrow> int \<Rightarrow> 'b \<Rightarrow> string + 'b"
  pushPoolShare :: "string \<Rightarrow> AccAddress \<Rightarrow> int \<Rightarrow> 'b \<Rightarrow> string + 'b"
  pullPoolShare :: "string \<Rightarrow> AccAddress \<Rightarrow> int \<Rightarrow> 'b \<Rightarrow> string + 'b"
  burnPoolShare :: "string \<Rightarrow> int \<Rightarrow> 'b \<Rightarrow> string + 'b"
  SendCoinsFromAccountToModule :: "AccAddress \<Rightarrow> string \<Rightarrow> Coin list \<Rightarrow> 'b \<Rightarrow> string + 'b"
  SendCoinsFromModuleToAccount :: "string \<Rightarrow> AccAddress \<Rightarrow> Coin list \<Rightarrow> 'b \<Rightarrow> string + 'b"
  calcPoolOutGivenSingleIn :: "Dec \<Rightarrow> Dec \<Rightarrow> Dec \<Rightarrow> Dec \<Rightarrow> Dec \<Rightarrow> Dec \<Rightarrow> error + Dec"
  calcSingleInGivenPoolOut :: "Dec \<Rightarrow> Dec \<Rightarrow> Dec \<Rightarrow> Dec \<Rightarrow> Dec \<Rightarrow> Dec \<Rightarrow> error + Dec"
  calcSingleOutGivenPoolIn :: "Dec \<Rightarrow> Dec \<Rightarrow> Dec \<Rightarrow> Dec \<Rightarrow> Dec \<Rightarrow> Dec \<Rightarrow> error + Dec"
  calcPoolInGivenSingleOut :: "Dec \<Rightarrow> Dec \<Rightarrow> Dec \<Rightarrow> Dec \<Rightarrow> Dec \<Rightarrow> Dec \<Rightarrow> error + Dec"

definition ModuleName :: string where
  "ModuleName = ''gamm''"

subsection \<open>Reading a record that may be missing\<close>

text \<open>
  \<^verbatim>\<open>record, ok := pool.Records[denom]\<close> gives, for a missing key, the zero \<^verbatim>\<open>Record\<close>:
  its \<^verbatim>\<open>Balance\<close> is the zero \<^verbatim>\<open>sdk.Int\<close>, a nil pointer to a big integer, and any
  arithmetic on it (\<^verbatim>\<open>ToDec\<close>, \<^verbatim>\<open>Add\<close>, \<^verbatim>\<open>Sub\<close>) dereferences the pointer and panics.
  \<open>Balance_ToDec\<close> is \<^verbatim>\<open>record.Balance.ToDec()\<close> on the result of such a lookup.
\<close>

definition Balance_ToDec :: "Record option \<Rightarrow> error + Dec" where
  "Balance_ToDec lk =
     (case lk of
        None \<Rightarrow> Inl (Panic ''nil pointer dereference'')
      | Some record \<Rightarrow> Inr (ToDec (Balance record)))"

subsection \<open>joinPool (lines 75 to 111)\<close>

type_synonym heap = "nat \<Rightarrow> Record gomap"

text \<open>The loop of lines 104 to 108, on the map at address \<open>a\<close>.\<close>

fun joinPool_save :: "nat \<Rightarrow> Coin list \<Rightarrow> heap \<Rightarrow> error + heap" where
  "joinPool_save a [] h = Inr h"
| "joinPool_save a (target # targets) h =
     (case map_of (h a) (Denom target) of
        None \<Rightarrow> Inl (Panic ''nil pointer dereference'')
      | Some record \<Rightarrow>
          joinPool_save a targets
            (h(a := AList.update (Denom target)
                      (record\<lparr>Balance := Balance record + Amount target\<rparr>) (h a))))"

definition joinPool ::
  "'b env \<Rightarrow> AccAddress \<Rightarrow> nat Pool \<Rightarrow> Coin list \<Rightarrow> int \<Rightarrow> 'b state \<Rightarrow> error + 'b state" where
  "joinPool p sender pool swapTargets swapAmount s =
     (case mintPoolShare p (lp_Denom (Token pool)) swapAmount (bank s) of
        Inl msg \<Rightarrow> Inl (ErrBank msg)
      | Inr b1 \<Rightarrow>
     (case pushPoolShare p (lp_Denom (Token pool)) sender swapAmount b1 of
        Inl msg \<Rightarrow> Inl (ErrBank msg)
      | Inr b2 \<Rightarrow>
     (case SendCoinsFromAccountToModule p sender ModuleName swapTargets b2 of
        Inl msg \<Rightarrow> Inl (ErrBank msg)
      | Inr b3 \<Rightarrow>
     (case joinPool_save (Records pool) swapTargets (heap s) of
        Inl err \<Rightarrow> Inl err
      | Inr h \<Rightarrow>
          Inr (StorePool
                 (pool\<lparr>Token := (Token pool)\<lparr>TotalSupply := TotalSupply (Token pool) + swapAmount\<rparr>\<rparr>)
                 (s\<lparr>bank := b3, heap := h\<rparr>))))))"

subsection \<open>CreatePool (lines 113 to 184)\<close>

text \<open>\<^verbatim>\<open>fmt.Sprintf("%d", n)\<close> for an unsigned number.\<close>

fun decimal :: "nat \<Rightarrow> string" where
  "decimal n =
     (if n < 10 then [char_of (48 + n)]
      else decimal (n div 10) @ [char_of (48 + n mod 10)])"

declare decimal.simps [simp del]

text \<open>The loop of lines 134 to 139, on the map at address \<open>a\<close>.\<close>

fun CreatePool_records :: "nat \<Rightarrow> BindTokenInfo list \<Rightarrow> heap \<Rightarrow> heap" where
  "CreatePool_records a [] h = h"
| "CreatePool_records a (info # infos) h =
     CreatePool_records a infos
       (h(a := AList.update (bind_Denom info)
                 \<lparr>DenormalizedWeight = Weight info, Balance = bind_Amount info\<rparr> (h a)))"

text \<open>The loop of lines 149 to 151.\<close>

fun CreatePool_totalWeight :: "(string \<times> Record) list \<Rightarrow> Dec \<Rightarrow> Dec" where
  "CreatePool_totalWeight [] totalWeight = totalWeight"
| "CreatePool_totalWeight ((denom, record) # rs) totalWeight =
     CreatePool_totalWeight rs (Dec_Add totalWeight (DenormalizedWeight record))"

text \<open>The loop of lines 168 to 173; \<^verbatim>\<open>coins\<close> starts as nil, the empty list.\<close>

fun CreatePool_coins :: "(string \<times> Record) list \<Rightarrow> Coin list \<Rightarrow> Coin list" where
  "CreatePool_coins [] coins = coins"
| "CreatePool_coins ((denom, record) # rs) coins =
     CreatePool_coins rs (coins @ [\<lparr>Denom = denom, Amount = Balance record\<rparr>])"

text \<open>\<^verbatim>\<open>coins.Sort()\<close> orders the coins by denom.\<close>

definition Sort :: "Coin list \<Rightarrow> Coin list" where
  "Sort coins = sort_key Denom coins"

text \<open>
  Lines 133 to 173: the records, the pool id, the share denom, the total weight, the pool,
  its first write to the store, and the coin list before it is sorted.
\<close>

definition CreatePool_assemble ::
  "Dec \<Rightarrow> LPTokenInfo \<Rightarrow> BindTokenInfo list \<Rightarrow> 'b state \<Rightarrow> nat Pool \<times> Coin list \<times> 'b state" where
  "CreatePool_assemble swapFee lpToken bindTokens s =
     (let records = heap_next s;
          s1 = s\<lparr>heap := (heap s)(records := []), heap_next := Suc records\<rparr>;
          s2 = s1\<lparr>heap := CreatePool_records records bindTokens (heap s1)\<rparr>;
          (poolId, s3) = GetNextPoolNumber s2;
          lpDenom = (if info_Denom lpToken = [] then ''osmosis/pool/'' @ decimal poolId
                     else ''osmosis/custom/'' @ info_Denom lpToken);
          totalWeight = CreatePool_totalWeight (range_map (heap s3 records)) (NewDec 0);
          pool = \<lparr>Id = poolId, SwapFee = swapFee,
                  Token = \<lparr>lp_Denom = lpDenom, Description = info_Description lpToken,
                           TotalSupply = 0\<rparr>,
                  TotalWeight = totalWeight, Records = records\<rparr>;
          s4 = StorePool pool s3;
          coins = CreatePool_coins (range_map (heap s4 records)) []
      in (pool, coins, s4))"

definition CreatePool ::
  "'b env \<Rightarrow> AccAddress \<Rightarrow> Dec \<Rightarrow> LPTokenInfo \<Rightarrow> BindTokenInfo list \<Rightarrow> 'b state
     \<Rightarrow> error + (nat \<times> 'b state)" where
  "CreatePool p sender swapFee lpToken bindTokens s =
     (if length bindTokens < 2 then
        Inl (ErrInvalidRequest ''token info length should be at least 2'')
      else if length bindTokens > 8 then
        Inl (ErrInvalidRequest ''token info length should be at maximum 8'')
      else
        (case CreatePool_assemble swapFee lpToken bindTokens s of
           (pool, coins, s4) \<Rightarrow>
             if coins = [] then Inl (Panic ''oh my god'')
             else
               (case joinPool p sender pool (Sort coins) (NewIntWithDecimal 100 6) s4 of
                  Inl err \<Rightarrow> Inl err
                | Inr s5 \<Rightarrow> Inr (Id pool, s5))))"

subsection \<open>JoinPool (lines 186 to 244)\<close>

text \<open>
  The loop of lines 206 to 214, and the same loop of lines 422 to 430, over the denoms of
  the list; \<^verbatim>\<open>checker[denom]\<close> is false for a missing key.
\<close>

fun checker_loop :: "string list \<Rightarrow> bool gomap \<Rightarrow> error + bool gomap" where
  "checker_loop [] checker = Inr checker"
| "checker_loop (denom # denoms) checker =
     (if map_of checker denom = Some True then
        Inl (ErrInvalidRequest ''do not use duplicated denom'')
      else checker_loop denoms (AList.update denom True checker))"

text \<open>
  The loop of lines 223 to 242. \<^verbatim>\<open>tokenAmountIn\<close> is computed in the \<^verbatim>\<open>var\<close> block, before
  \<^verbatim>\<open>ok\<close> is tested.
\<close>

fun JoinPool_swapTargets ::
  "Dec \<Rightarrow> Record gomap \<Rightarrow> MaxAmountIn list \<Rightarrow> Coin list \<Rightarrow> error + Coin list" where
  "JoinPool_swapTargets poolRatio records [] swapTargets = Inr swapTargets"
| "JoinPool_swapTargets poolRatio records (maxAmountIn # rest) swapTargets =
     (case Balance_ToDec (map_of records (max_Denom maxAmountIn)) of
        Inl err \<Rightarrow> Inl err
      | Inr balance \<Rightarrow>
     (case map_of records (max_Denom maxAmountIn) of
        None \<Rightarrow> Inl (ErrInvalidRequest ''token is not bound to pool'')
      | Some record \<Rightarrow>
          if TruncateInt (Mul poolRatio balance) = 0 then
            Inl (ErrMathApprox ''calc tokenAmountIn'')
          else if TruncateInt (Mul poolRatio balance) > MaxAmount maxAmountIn then
            Inl (ErrLimitExceed ''max amount limited'')
          else
            JoinPool_swapTargets poolRatio records rest
              (swapTargets @ [\<lparr>Denom = max_Denom maxAmountIn,
                               Amount = TruncateInt (Mul poolRatio balance)\<rparr>])))"

definition JoinPool ::
  "'b env \<Rightarrow> AccAddress \<Rightarrow> nat \<Rightarrow> int \<Rightarrow> MaxAmountIn list \<Rightarrow> 'b state \<Rightarrow> error + 'b state" where
  "JoinPool p sender targetPoolId poolAmountOut maxAmountsIn s =
     (case FetchPool targetPoolId s of
        Inl err \<Rightarrow> Inl err
      | Inr (pool, s1) \<Rightarrow>
     (case Quo (ToDec poolAmountOut) (ToDec (TotalSupply (Token pool))) of
        Inl err \<Rightarrow> Inl err
      | Inr poolRatio \<Rightarrow>
          if poolRatio = NewDec 0 then Inl (ErrMathApprox ''calc poolRatio'')
          else
     (case checker_loop (map max_Denom maxAmountsIn) [] of
        Inl err \<Rightarrow> Inl err
      | Inr checker \<Rightarrow>
          if len_map (heap s1 (Records pool)) \<noteq> len_map checker then
            Inl (ErrInvalidRequest ''invalid maxAmountsIn argument'')
          else
     (case JoinPool_swapTargets poolRatio (heap s1 (Records pool)) maxAmountsIn [] of
        Inl err \<Rightarrow> Inl err
      | Inr swapTargets \<Rightarrow> joinPool p sender pool swapTargets poolAmountOut s1))))"

subsection \<open>The single-asset joins (lines 246 to 362)\<close>

definition JoinPoolWithExternAmountIn ::
  "'b env \<Rightarrow> AccAddress \<Rightarrow> nat \<Rightarrow> string \<Rightarrow> int \<Rightarrow> int \<Rightarrow> 'b state
     \<Rightarrow> error + (int \<times> 'b state)" where
  "JoinPoolWithExternAmountIn p sender targetPoolId tokenIn tokenAmountIn minPoolAmountOut s =
     (case FetchPool targetPoolId s of
        Inl err \<Rightarrow> Inl err
      | Inr (pool, s1) \<Rightarrow>
     (case map_of (heap s1 (Records pool)) tokenIn of
        None \<Rightarrow> Inl (ErrNotBound (''token '' @ tokenIn @ '' is not bound to this pool''))
      | Some record \<Rightarrow>
          if GT (ToDec tokenAmountIn) (Mul (ToDec (Balance record)) maxInRatio) then
            Inl (ErrMaxInRatio ''tokenAmount exceeds max in ratio'')
          else
     (case calcPoolOutGivenSingleIn p (ToDec (Balance record)) (DenormalizedWeight record)
             (ToDec (TotalSupply (Token pool))) (TotalWeight pool) (ToDec tokenAmountIn)
             (SwapFee pool) of
        Inl err \<Rightarrow> Inl err
      | Inr out \<Rightarrow>
          if TruncateInt out < minPoolAmountOut then
            Inl (ErrLimitOut ''poolShare minimum limit has exceeded'')
          else
     (case joinPool p sender pool [\<lparr>Denom = tokenIn, Amount = tokenAmountIn\<rparr>]
             (TruncateInt out) s1 of
        Inl err \<Rightarrow> Inl err
      | Inr s2 \<Rightarrow> Inr (TruncateInt out, s2)))))"

definition JoinPoolWithPoolAmountOut ::
  "'b env \<Rightarrow> AccAddress \<Rightarrow> nat \<Rightarrow> string \<Rightarrow> int \<Rightarrow> int \<Rightarrow> 'b state
     \<Rightarrow> error + (int \<times> 'b state)" where
  "JoinPoolWithPoolAmountOut p sender targetPoolId tokenIn poolAmountOut maxAmountIn s =
     (case FetchPool targetPoolId s of
        Inl err \<Rightarrow> Inl err
      | Inr (pool, s1) \<Rightarrow>
     (case map_of (heap s1 (Records pool)) tokenIn of
        None \<Rightarrow> Inl (ErrNotBound (''token '' @ tokenIn @ '' is not bound to this pool''))
      | Some record \<Rightarrow>
     (case calcSingleInGivenPoolOut p (ToDec (Balance record)) (DenormalizedWeight record)
             (ToDec (TotalSupply (Token pool))) (TotalWeight pool) (ToDec poolAmountOut)
             (SwapFee pool) of
        Inl err \<Rightarrow> Inl err
      | Inr amount \<Rightarrow>
          if TruncateInt amount = 0 then
            Inl (ErrMathApprox ''calculate tokenAmountIn'')
          else if TruncateInt amount > maxAmountIn then
            Inl (ErrLimitIn ''tokenAmount maximum limit has exceeded'')
          else if GT (ToDec (TruncateInt amount)) (Mul (ToDec (Balance record)) maxInRatio) then
            Inl (ErrMaxInRatio ''tokenAmount exceeds max in ratio'')
          else
     (case joinPool p sender pool [\<lparr>Denom = tokenIn, Amount = TruncateInt amount\<rparr>]
             poolAmountOut s1 of
        Inl err \<Rightarrow> Inl err
      | Inr s2 \<Rightarrow> Inr (poolAmountOut, s2)))))"

subsection \<open>exitPool (lines 364 to 400)\<close>

text \<open>The loop of lines 393 to 397, on the map at address \<open>a\<close>.\<close>

fun exitPool_save :: "nat \<Rightarrow> Coin list \<Rightarrow> heap \<Rightarrow> error + heap" where
  "exitPool_save a [] h = Inr h"
| "exitPool_save a (target # targets) h =
     (case map_of (h a) (Denom target) of
        None \<Rightarrow> Inl (Panic ''nil pointer dereference'')
      | Some record \<Rightarrow>
          exitPool_save a targets
            (h(a := AList.update (Denom target)
                      (record\<lparr>Balance := Balance record - Amount target\<rparr>) (h a))))"

definition exitPool ::
  "'b env \<Rightarrow> AccAddress \<Rightarrow> nat Pool \<Rightarrow> int \<Rightarrow> Coin list \<Rightarrow> 'b state \<Rightarrow> error + 'b state" where
  "exitPool p sender pool swapTarget swapAmounts s =
     (case pullPoolShare p (lp_Denom (Token pool)) sender swapTarget (bank s) of
        Inl msg \<Rightarrow> Inl (ErrBank msg)
      | Inr b1 \<Rightarrow>
     (case burnPoolShare p (lp_Denom (Token pool)) swapTarget b1 of
        Inl msg \<Rightarrow> Inl (ErrBank msg)
      | Inr b2 \<Rightarrow>
     (case SendCoinsFromModuleToAccount p ModuleName sender swapAmounts b2 of
        Inl msg \<Rightarrow> Inl (ErrBank msg)
      | Inr b3 \<Rightarrow>
     (case exitPool_save (Records pool) swapAmounts (heap s) of
        Inl err \<Rightarrow> Inl err
      | Inr h \<Rightarrow>
          Inr (StorePool
                 (pool\<lparr>Token := (Token pool)\<lparr>TotalSupply := TotalSupply (Token pool) - swapTarget\<rparr>\<rparr>)
                 (s\<lparr>bank := b3, heap := h\<rparr>))))))"

subsection \<open>ExitPool (lines 402 to 463)\<close>

text \<open>
  The loop of lines 439 to 461. Lines 454 and 455 write the reduced record back into the
  map at address \<open>a\<close>, the map that \<^verbatim>\<open>exitPool\<close> receives with the pool.
\<close>

fun ExitPool_swapAmounts ::
  "Dec \<Rightarrow> nat \<Rightarrow> MinAmountOut list \<Rightarrow> Coin list \<Rightarrow> heap \<Rightarrow> error + (Coin list \<times> heap)" where
  "ExitPool_swapAmounts poolRatio a [] swapAmounts h = Inr (swapAmounts, h)"
| "ExitPool_swapAmounts poolRatio a (minAmountOut # rest) swapAmounts h =
     (case Balance_ToDec (map_of (h a) (min_Denom minAmountOut)) of
        Inl err \<Rightarrow> Inl err
      | Inr balance \<Rightarrow>
     (case map_of (h a) (min_Denom minAmountOut) of
        None \<Rightarrow> Inl (ErrInvalidRequest ''token is not bound to pool'')
      | Some record \<Rightarrow>
          if TruncateInt (Mul poolRatio balance) = 0 then
            Inl (ErrMathApprox ''calc tokenAmountOut'')
          else if TruncateInt (Mul poolRatio balance) < MinAmount minAmountOut then
            Inl (ErrLimitExceed ''min amount limited'')
          else
            ExitPool_swapAmounts poolRatio a rest
              (swapAmounts @ [\<lparr>Denom = min_Denom minAmountOut,
                               Amount = TruncateInt (Mul poolRatio balance)\<rparr>])
              (h(a := AList.update (min_Denom minAmountOut)
                        (record\<lparr>Balance := Balance record - TruncateInt (Mul poolRatio balance)\<rparr>)
                        (h a)))))"

definition ExitPool ::
  "'b env \<Rightarrow> AccAddress \<Rightarrow> nat \<Rightarrow> int \<Rightarrow> MinAmountOut list \<Rightarrow> 'b state \<Rightarrow> error + 'b state" where
  "ExitPool p sender targetPoolId poolAmountIn minAmountsOut s =
     (case FetchPool targetPoolId s of
        Inl err \<Rightarrow> Inl err
      | Inr (pool, s1) \<Rightarrow>
     (case Quo (ToDec poolAmountIn) (ToDec (TotalSupply (Token pool))) of
        Inl err \<Rightarrow> Inl err
      | Inr poolRatio \<Rightarrow>
          if poolRatio = NewDec 0 then Inl (ErrMathApprox ''calc poolRatio'')
          else
     (case checker_loop (map min_Denom minAmountsOut) [] of
        Inl err \<Rightarrow> Inl err
      | Inr checker \<Rightarrow>
          if len_map (heap s1 (Records pool)) \<noteq> len_map checker then
            Inl (ErrInvalidRequest ''invalid minAmountsOut argument'')
          else
     (case ExitPool_swapAmounts poolRatio (Records pool) minAmountsOut [] (heap s1) of
        Inl err \<Rightarrow> Inl err
      | Inr (swapAmounts, h) \<Rightarrow>
          exitPool p sender pool poolAmountIn swapAmounts (s1\<lparr>heap := h\<rparr>)))))"

subsection \<open>The single-asset exits (lines 465 to 577)\<close>

definition ExitPoolWithPoolAmountIn ::
  "'b env \<Rightarrow> AccAddress \<Rightarrow> nat \<Rightarrow> string \<Rightarrow> int \<Rightarrow> int \<Rightarrow> 'b state
     \<Rightarrow> error + (int \<times> 'b state)" where
  "ExitPoolWithPoolAmountIn p sender targetPoolId tokenOut poolAmountIn minAmountOut s =
     (case FetchPool targetPoolId s of
        Inl err \<Rightarrow> Inl err
      | Inr (pool, s1) \<Rightarrow>
     (case map_of (heap s1 (Records pool)) tokenOut of
        None \<Rightarrow> Inl (ErrNotBound (''token '' @ tokenOut @ '' is not bound to this pool''))
      | Some record \<Rightarrow>
     (case calcSingleOutGivenPoolIn p (ToDec (Balance record)) (DenormalizedWeight record)
             (ToDec (TotalSupply (Token pool))) (TotalWeight pool) (ToDec poolAmountIn)
             (SwapFee pool) of
        Inl err \<Rightarrow> Inl err
      | Inr amount \<Rightarrow>
          if TruncateInt amount < minAmountOut then
            Inl (ErrLimitOut ''tokenAmount minimum limit has exceeded'')
          else if GT (ToDec (TruncateInt amount)) (Mul (ToDec (Balance record)) maxOutRatio) then
            Inl (ErrMaxOutRatio ''tokenAmount exceeds max out ratio'')
          else
     (case exitPool p sender pool poolAmountIn
             [\<lparr>Denom = tokenOut, Amount = TruncateInt amount\<rparr>] s1 of
        Inl err \<Rightarrow> Inl err
      | Inr s2 \<Rightarrow> Inr (TruncateInt amount, s2)))))"

definition ExitPoolWithExternAmountOut ::
  "'b env \<Rightarrow> AccAddress \<Rightarrow> nat \<Rightarrow> string \<Rightarrow> int \<Rightarrow> int \<Rightarrow> 'b state
     \<Rightarrow> error + (int \<times> 'b state)" where
  "ExitPoolWithExternAmountOut p sender targetPoolId tokenOut tokenAmountOut maxPoolAmountIn s =
     (case FetchPool targetPoolId s of
        Inl err \<Rightarrow> Inl err
      | Inr (pool, s1) \<Rightarrow>
     (case map_of (heap s1 (Records pool)) tokenOut of
        None \<Rightarrow> Inl (ErrNotBound (''token '' @ tokenOut @ '' is not bound to this pool''))
      | Some record \<Rightarrow>
          if GT (ToDec tokenAmountOut) (Mul (ToDec (Balance record)) maxOutRatio) then
            Inl (ErrMaxOutRatio ''tokenAmount exceeds max out ratio'')
          else
     (case calcPoolInGivenSingleOut p (ToDec (Balance record)) (DenormalizedWeight record)
             (ToDec (TotalSupply (Token pool))) (TotalWeight pool) (ToDec tokenAmountOut)
             (SwapFee pool) of
        Inl err \<Rightarrow> Inl err
      | Inr amount \<Rightarrow>
          if TruncateInt amount = 0 then
            Inl (ErrMathApprox ''calculate poolAmountIn'')
          else if TruncateInt amount > maxPoolAmountIn then
            Inl (ErrLimitIn ''poolAmount maximum limit has exceeded'')
          else
     (case exitPool p sender pool (TruncateInt amount)
             [\<lparr>Denom = tokenOut, Amount = tokenAmountOut\<rparr>] s1 of
        Inl err \<Rightarrow> Inl err
      | Inr s2 \<Rightarrow> Inr (TruncateInt amount, s2)))))"

subsection \<open>A bank and a pool math to run the service on\<close>

text \<open>
  Modelled from the spec: the external bank of section 6, as a ledger of balances by
  account and denom. The module escrow is the account named by the module. A transfer
  fails when an amount is not positive or the payer holds less; minting adds to the
  escrow and burning takes from it. The share ledger of section 4.C is these calls on the
  pool's share denom.
\<close>

type_synonym ledger = "AccAddress \<times> string \<Rightarrow> int"

fun send_coins :: "AccAddress \<Rightarrow> AccAddress \<Rightarrow> Coin list \<Rightarrow> ledger \<Rightarrow> string + ledger" where
  "send_coins from to [] l = Inr l"
| "send_coins from to (c # cs) l =
     (if Amount c \<le> 0 then Inl ''invalid coins''
      else if l (from, Denom c) < Amount c then Inl ''insufficient funds''
      else send_coins from to cs
             ((l((from, Denom c) := l (from, Denom c) - Amount c))
                ((to, Denom c) := (l((from, Denom c) := l (from, Denom c) - Amount c)) (to, Denom c)
                                    + Amount c)))"

definition mint_coins :: "string \<Rightarrow> int \<Rightarrow> ledger \<Rightarrow> string + ledger" where
  "mint_coins denom n l =
     (if n \<le> 0 then Inl ''invalid coins''
      else Inr (l((ModuleName, denom) := l (ModuleName, denom) + n)))"

definition burn_coins :: "string \<Rightarrow> int \<Rightarrow> ledger \<Rightarrow> string + ledger" where
  "burn_coins denom n l =
     (if n \<le> 0 then Inl ''invalid coins''
      else if l (ModuleName, denom) < n then Inl ''insufficient funds''
      else Inr (l((ModuleName, denom) := l (ModuleName, denom) - n)))"

text \<open>
  The pool math of the scenarios answers every call with one amount: \<open>out\<close> is the whole
  number of units each of the four formulas returns.
\<close>

definition ledger_env :: "int \<Rightarrow> ledger env" where
  "ledger_env out =
     \<lparr>mintPoolShare = mint_coins,
      pushPoolShare = (\<lambda>denom to n. send_coins ModuleName to [\<lparr>Denom = denom, Amount = n\<rparr>]),
      pullPoolShare = (\<lambda>denom from n. send_coins from ModuleName [\<lparr>Denom = denom, Amount = n\<rparr>]),
      burnPoolShare = burn_coins,
      SendCoinsFromAccountToModule = (\<lambda>from module coins. send_coins from module coins),
      SendCoinsFromModuleToAccount = (\<lambda>module to coins. send_coins module to coins),
      calcPoolOutGivenSingleIn = (\<lambda>Bi Wi S W Ai f. Inr (NewDec out)),
      calcSingleInGivenPoolOut = (\<lambda>Bi Wi S W Pout f. Inr (NewDec out)),
      calcSingleOutGivenPoolIn = (\<lambda>Bi Wi S W Pin f. Inr (NewDec out)),
      calcPoolInGivenSingleOut = (\<lambda>Bi Wi S W Ao f. Inr (NewDec out))\<rparr>"

text \<open>
  The scenarios of section 8 of the spec: account \<open>A\<close> holds 1000 atom and 1000 osmo, the
  store is empty and the next pool number is 1.
\<close>

definition genesis :: "ledger state" where
  "genesis =
     \<lparr>bank = (\<lambda>k. 0)((''A'', ''atom'') := 1000, (''A'', ''osmo'') := 1000),
      heap = (\<lambda>a. []), heap_next = 0, kv = Map.empty, next_pool_number = 1, writes = []\<rparr>"

definition atom_osmo :: "BindTokenInfo list" where
  "atom_osmo =
     [\<lparr>bind_Denom = ''atom'', Weight = NewDec 1, bind_Amount = 100\<rparr>,
      \<lparr>bind_Denom = ''osmo'', Weight = NewDec 1, bind_Amount = 100\<rparr>]"

text \<open>
  A state whose store holds, under id 1, a pool of 100 atom and 100 osmo of equal weight
  with 100000000 shares; the escrow holds the assets and \<open>A\<close> holds the shares.
\<close>

definition pool1 :: stored_pool where
  "pool1 =
     \<lparr>Id = 1, SwapFee = Dec 10000000000000000,
      Token = \<lparr>lp_Denom = ''osmosis/pool/1'', Description = [], TotalSupply = 100000000\<rparr>,
      TotalWeight = NewDec 2,
      Records = [(''atom'', \<lparr>DenormalizedWeight = NewDec 1, Balance = 100\<rparr>),
                 (''osmo'', \<lparr>DenormalizedWeight = NewDec 1, Balance = 100\<rparr>)]\<rparr>"

definition funded :: "ledger state" where
  "funded =
     \<lparr>bank = (\<lambda>k. 0)((''A'', ''atom'') := 900, (''A'', ''osmo'') := 900,
                       (''gamm'', ''atom'') := 100, (''gamm'', ''osmo'') := 100,
                       (''A'', ''osmosis/pool/1'') := 100000000),
      heap = (\<lambda>a. []), heap_next = 0, kv = [1 \<mapsto> pool1], next_pool_number = 2,
      writes = []\<rparr>"

subsection \<open>Notions used to state the properties\<close>

text \<open>\<open>listed d coins\<close> is the sum of the amounts that the coin list gives for denom \<open>d\<close>.\<close>

definition listed :: "string \<Rightarrow> Coin list \<Rightarrow> int" where
  "listed d coins = sum_list (map Amount (filter (\<lambda>c. Denom c = d) coins))"

text \<open>
  \<open>adjusted sp \<delta> f sp'\<close>: the pool \<open>sp'\<close> is the pool \<open>sp\<close> with \<open>\<delta>\<close> added to the total
  supply and \<open>f d\<close> added to the balance of each record \<open>d\<close>, and nothing else changed.
  \<open>stores s sp' s'\<close>: from \<open>s\<close> to \<open>s'\<close> the store received one write, of \<open>sp'\<close> under
  its id.
\<close>

definition adjusted :: "stored_pool \<Rightarrow> int \<Rightarrow> (string \<Rightarrow> int) \<Rightarrow> stored_pool \<Rightarrow> bool" where
  "adjusted sp \<delta> f sp' \<longleftrightarrow>
     Id sp' = Id sp \<and> SwapFee sp' = SwapFee sp \<and> TotalWeight sp' = TotalWeight sp \<and>
     Token sp' = (Token sp)\<lparr>TotalSupply := TotalSupply (Token sp) + \<delta>\<rparr> \<and>
     (\<forall>d. map_of (Records sp') d =
            map_option (\<lambda>r. r\<lparr>Balance := Balance r + f d\<rparr>) (map_of (Records sp) d))"

definition stores :: "'b state \<Rightarrow> stored_pool \<Rightarrow> 'b state \<Rightarrow> bool" where
  "stores s sp' s' \<longleftrightarrow>
     kv s' = (kv s)(Id sp' \<mapsto> sp') \<and> writes s' = writes s @ [sp'] \<and>
     next_pool_number s' = next_pool_number s"

subsection \<open>The interface LiquidityPoolTransactor (lines 11 to 71)\<close>

text \<open>
  A request is a call of one of the joins and exits of the interface, with its arguments
  after \<^verbatim>\<open>targetPoolId\<close>. \<open>serve\<close> makes the call and keeps the state it leaves;
  \<open>coin_denoms\<close> is the set of denoms of the coin list of the call: the denoms of
  \<^verbatim>\<open>maxAmountsIn\<close> or \<^verbatim>\<open>minAmountsOut\<close>, or the one token of a single-asset call.
\<close>

datatype request =
    ReqJoinPool int "MaxAmountIn list"
  | ReqJoinPoolWithExternAmountIn string int int
  | ReqJoinPoolWithPoolAmountOut string int int
  | ReqExitPool int "MinAmountOut list"
  | ReqExitPoolWithPoolAmountIn string int int
  | ReqExitPoolWithExternAmountOut string int int

fun serve :: "'b env \<Rightarrow> AccAddress \<Rightarrow> nat \<Rightarrow> request \<Rightarrow> 'b state \<Rightarrow> error + 'b state" where
  "serve p sender poolId (ReqJoinPool poolAmountOut maxAmountsIn) s =
     JoinPool p sender poolId poolAmountOut maxAmountsIn s"
| "serve p sender poolId (ReqJoinPoolWithExternAmountIn tokenIn tokenAmountIn minPoolAmountOut) s =
     map_sum id snd
       (JoinPoolWithExternAmountIn p sender poolId tokenIn tokenAmountIn minPoolAmountOut s)"
| "serve p sender poolId (ReqJoinPoolWithPoolAmountOut tokenIn poolAmountOut maxAmountIn) s =
     map_sum id snd
       (JoinPoolWithPoolAmountOut p sender poolId tokenIn poolAmountOut maxAmountIn s)"
| "serve p sender poolId (ReqExitPool poolAmountIn minAmountsOut) s =
     ExitPool p sender poolId poolAmountIn minAmountsOut s"
| "serve p sender poolId (ReqExitPoolWithPoolAmountIn tokenOut poolAmountIn minAmountOut) s =
     map_sum id snd
       (ExitPoolWithPoolAmountIn p sender poolId tokenOut poolAmountIn minAmountOut s)"
| "serve p sender poolId (ReqExitPoolWithExternAmountOut tokenOut tokenAmountOut maxPoolAmountIn) s =
     map_sum id snd
       (ExitPoolWithExternAmountOut p sender poolId tokenOut tokenAmountOut maxPoolAmountIn s)"

fun coin_denoms :: "request \<Rightarrow> string set" where
  "coin_denoms (ReqJoinPool poolAmountOut maxAmountsIn) = max_Denom ` set maxAmountsIn"
| "coin_denoms (ReqJoinPoolWithExternAmountIn tokenIn tokenAmountIn minPoolAmountOut) = {tokenIn}"
| "coin_denoms (ReqJoinPoolWithPoolAmountOut tokenIn poolAmountOut maxAmountIn) = {tokenIn}"
| "coin_denoms (ReqExitPool poolAmountIn minAmountsOut) = min_Denom ` set minAmountsOut"
| "coin_denoms (ReqExitPoolWithPoolAmountIn tokenOut poolAmountIn minAmountOut) = {tokenOut}"
| "coin_denoms (ReqExitPoolWithExternAmountOut tokenOut tokenAmountOut maxPoolAmountIn) = {tokenOut}"

text \<open>
  What a run leaves, read without naming the state: the state after a call that also
  returns a value, the pool the store holds under an id, and the log of writes.
\<close>

definition final :: "error + ('a \<times> 'b state) \<Rightarrow> error + 'b state" where
  "final res = map_sum id snd res"

definition stored_in :: "error + 'b state \<Rightarrow> nat \<Rightarrow> stored_pool option" where
  "stored_in res poolId = (case res of Inl err \<Rightarrow> None | Inr s \<Rightarrow> kv s poolId)"

definition written_by :: "error + 'b state \<Rightarrow> stored_pool list" where
  "written_by res = (case res of Inl err \<Rightarrow> [] | Inr s \<Rightarrow> writes s)"

definition balance_of :: "stored_pool option \<Rightarrow> string \<Rightarrow> int option" where
  "balance_of sp d = (case sp of None \<Rightarrow> None | Some q \<Rightarrow> map_option Balance (map_of (Records q) d))"

definition failure :: "error + 'a \<Rightarrow> error option" where
  "failure res = (case res of Inl err \<Rightarrow> Some err | Inr x \<Rightarrow> None)"

definition supply_of :: "stored_pool option \<Rightarrow> int option" where
  "supply_of sp = (case sp of None \<Rightarrow> None | Some q \<Rightarrow> Some (TotalSupply (Token q)))"

definition holding :: "error + ledger state \<Rightarrow> AccAddress \<Rightarrow> string \<Rightarrow> int option" where
  "holding res account denom = (case res of Inl err \<Rightarrow> None | Inr s \<Rightarrow> Some (bank s (account, denom)))"

text \<open>\<open>and_then res call\<close> makes the next call on the state that a run has left.\<close>

definition and_then :: "error + 'b state \<Rightarrow> ('b state \<Rightarrow> error + 'b state) \<Rightarrow> error + 'b state" where
  "and_then res call = (case res of Inl err \<Rightarrow> Inl err | Inr s \<Rightarrow> call s)"

section \<open>Properties of the model\<close>

subsection \<open>Decimals\<close>

lemma tquo_mult_precision: "tquo (x * precision) precision = x"
proof -
  have "\<bar>x * precision\<bar> div \<bar>precision\<bar> = \<bar>x\<bar>"
    by (simp add: precision_def abs_mult)
  moreover have "sgn (x * precision) * sgn precision = sgn x"
    by (simp add: precision_def sgn_mult)
  ultimately show ?thesis
    by (simp add: tquo_def sgn_mult_abs)
qed

lemma TruncateInt_ToDec: "TruncateInt (ToDec x) = x"
  by (simp add: TruncateInt_def ToDec_def NewDec_def tquo_mult_precision)

lemma atto_Mul_ToDec: "atto (Mul (ToDec b) r) = b * atto r"
proof -
  have "b * precision * atto r = (b * atto r) * precision"
    by simp
  then have "tquo (b * precision * atto r) precision = b * atto r"
    by (simp only: tquo_mult_precision)
  then show ?thesis
    by (simp add: Mul_def ToDec_def NewDec_def)
qed

lemma GT_maxInRatio: "GT (ToDec t) (Mul (ToDec b) maxInRatio) \<longleftrightarrow> b < 2 * t"
  by (simp add: GT_def atto_Mul_ToDec maxInRatio_def) (simp add: ToDec_def NewDec_def precision_def)

lemma GT_maxOutRatio:
  "GT (ToDec t) (Mul (ToDec b) maxOutRatio) \<longleftrightarrow> b * 333333333333333333 < t * 1000000000000000000"
  by (simp add: GT_def atto_Mul_ToDec maxOutRatio_def) (simp add: ToDec_def NewDec_def precision_def)

lemma Quo_ToDec:
  "Quo (ToDec x) (ToDec y) =
     (if y = 0 then Inl (Panic ''division by zero'')
      else Inr (Dec (tquo (x * precision * precision) (y * precision))))"
  by (simp add: Quo_def ToDec_def NewDec_def precision_def)

subsection \<open>Go maps\<close>

lemma len_map_card: "len_map m = card (dom (map_of m))"
proof -
  have "length (AList.clearjunk m) = length (map fst (AList.clearjunk m))"
    by simp
  also have "\<dots> = card (set (map fst (AList.clearjunk m)))"
    by (rule distinct_card [symmetric]) (rule distinct_clearjunk)
  also have "\<dots> = card (fst ` set m)"
    using clearjunk_keys_set [of m] by simp
  also have "\<dots> = card (dom (map_of m))"
    by (simp add: dom_map_of_conv_image_fst)
  finally show ?thesis
    by (simp add: len_map_def range_map_def)
qed

lemma listed_Nil [simp]: "listed d [] = 0"
  by (simp add: listed_def)

lemma listed_Cons:
  "listed d (c # cs) = (if Denom c = d then Amount c else 0) + listed d cs"
  by (simp add: listed_def)

lemma listed_append: "listed d (xs @ ys) = listed d xs + listed d ys"
  by (simp add: listed_def)

lemma listed_absent: "d \<notin> Denom ` set coins \<Longrightarrow> listed d coins = 0"
  by (induction coins) (auto simp: listed_Cons)

subsection \<open>The loops that save balances\<close>

lemma joinPool_save_other:
  "joinPool_save a targets h = Inr h' \<Longrightarrow> a' \<noteq> a \<Longrightarrow> h' a' = h a'"
  by (induction targets arbitrary: h) (auto split: option.splits)

lemma joinPool_save_map:
  "joinPool_save a targets h = Inr h' \<Longrightarrow>
   map_of (h' a) d =
     map_option (\<lambda>r. r\<lparr>Balance := Balance r + listed d targets\<rparr>) (map_of (h a) d)"
proof (induction targets arbitrary: h)
  case Nil
  then show ?case
    by (cases "map_of (h a) d") auto
next
  case (Cons target targets)
  from Cons.prems obtain rcd where
    rec: "map_of (h a) (Denom target) = Some rcd" and
    run: "joinPool_save a targets
            (h(a := AList.update (Denom target)
                      (rcd\<lparr>Balance := Balance rcd + Amount target\<rparr>) (h a))) = Inr h'"
    by (auto split: option.splits)
  show ?case
    using Cons.IH [OF run] rec
    by (cases "map_of (h a) d") (auto simp: update_conv' listed_Cons)
qed

lemma exitPool_save_other:
  "exitPool_save a targets h = Inr h' \<Longrightarrow> a' \<noteq> a \<Longrightarrow> h' a' = h a'"
  by (induction targets arbitrary: h) (auto split: option.splits)

lemma exitPool_save_map:
  "exitPool_save a targets h = Inr h' \<Longrightarrow>
   map_of (h' a) d =
     map_option (\<lambda>r. r\<lparr>Balance := Balance r - listed d targets\<rparr>) (map_of (h a) d)"
proof (induction targets arbitrary: h)
  case Nil
  then show ?case
    by (cases "map_of (h a) d") auto
next
  case (Cons target targets)
  from Cons.prems obtain rcd where
    rec: "map_of (h a) (Denom target) = Some rcd" and
    run: "exitPool_save a targets
            (h(a := AList.update (Denom target)
                      (rcd\<lparr>Balance := Balance rcd - Amount target\<rparr>) (h a))) = Inr h'"
    by (auto split: option.splits)
  show ?case
    using Cons.IH [OF run] rec
    by (cases "map_of (h a) d") (auto simp: update_conv' listed_Cons)
qed

subsection \<open>The loops that collect coins\<close>

lemma JoinPool_swapTargets_denoms:
  "JoinPool_swapTargets poolRatio records maxAmountsIn swapTargets = Inr out \<Longrightarrow>
   \<exists>new. out = swapTargets @ new \<and> map Denom new = map max_Denom maxAmountsIn"
proof (induction maxAmountsIn arbitrary: swapTargets)
  case Nil
  then show ?case by simp
next
  case (Cons m ms)
  from Cons.prems obtain c where
    run: "JoinPool_swapTargets poolRatio records ms (swapTargets @ [c]) = Inr out" and
    c: "Denom c = max_Denom m"
    by (auto split: sum.splits option.splits if_splits)
  from Cons.IH [OF run] obtain new where
    "out = (swapTargets @ [c]) @ new" "map Denom new = map max_Denom ms"
    by blast
  with c have "out = swapTargets @ (c # new) \<and> map Denom (c # new) = map max_Denom (m # ms)"
    by simp
  then show ?case by blast
qed

lemma ExitPool_swapAmounts_effect:
  "ExitPool_swapAmounts poolRatio a minAmountsOut swapAmounts h = Inr (out, h') \<Longrightarrow>
   \<exists>new. out = swapAmounts @ new \<and> map Denom new = map min_Denom minAmountsOut \<and>
     (\<forall>a'. a' \<noteq> a \<longrightarrow> h' a' = h a') \<and>
     (\<forall>d. map_of (h' a) d =
            map_option (\<lambda>r. r\<lparr>Balance := Balance r - listed d new\<rparr>) (map_of (h a) d))"
proof (induction minAmountsOut arbitrary: swapAmounts h)
  case Nil
  then have "out = swapAmounts" "h' = h"
    by simp_all
  moreover have "\<forall>d. map_of (h a) d =
      map_option (\<lambda>r. r\<lparr>Balance := Balance r - listed d []\<rparr>) (map_of (h a) d)"
    by (simp add: option.map_ident)
  ultimately show ?case
    by (intro exI [of _ "[]"]) simp
next
  case (Cons m ms)
  from Cons.prems obtain rcd where
    rec: "map_of (h a) (min_Denom m) = Some rcd"
    by (auto simp: Balance_ToDec_def split: sum.splits option.splits if_splits)
  define t where "t = TruncateInt (Mul poolRatio (ToDec (Balance rcd)))"
  define c where "c = \<lparr>Denom = min_Denom m, Amount = t\<rparr>"
  define h1 where "h1 = h(a := AList.update (min_Denom m) (rcd\<lparr>Balance := Balance rcd - t\<rparr>) (h a))"
  from Cons.prems rec have
    run: "ExitPool_swapAmounts poolRatio a ms (swapAmounts @ [c]) h1 = Inr (out, h')"
    by (auto simp: Balance_ToDec_def t_def c_def h1_def split: if_splits)
  from Cons.IH [OF run] obtain new where
    out: "out = (swapAmounts @ [c]) @ new" and
    den: "map Denom new = map min_Denom ms" and
    oth: "\<forall>a'. a' \<noteq> a \<longrightarrow> h' a' = h1 a'" and
    bal: "\<forall>d. map_of (h' a) d =
            map_option (\<lambda>r. r\<lparr>Balance := Balance r - listed d new\<rparr>) (map_of (h1 a) d)"
    by blast
  have "map_of (h' a) d =
          map_option (\<lambda>r. r\<lparr>Balance := Balance r - listed d (c # new)\<rparr>) (map_of (h a) d)" for d
    using bal [rule_format, of d] rec
    by (cases "map_of (h a) d") (auto simp: h1_def c_def update_conv' listed_Cons)
  moreover have "\<forall>a'. a' \<noteq> a \<longrightarrow> h' a' = h a'"
    using oth by (simp add: h1_def)
  moreover have "out = swapAmounts @ (c # new)" "map Denom (c # new) = map min_Denom (m # ms)"
    using out den by (simp_all add: c_def)
  ultimately show ?case
    by blast
qed

subsection \<open>What an operation leaves in the store\<close>

lemma FetchPool_Some:
  "kv s poolId = Some sp \<Longrightarrow>
   \<exists>pool s1. FetchPool poolId s = Inr (pool, s1) \<and> snapshot s1 pool = sp \<and>
     kv s1 = kv s \<and> writes s1 = writes s \<and> next_pool_number s1 = next_pool_number s \<and>
     bank s1 = bank s"
  by (simp add: FetchPool_def snapshot_def)

lemma FetchPool_None: "kv s poolId = None \<Longrightarrow> FetchPool poolId s = Inl (ErrNotFound ''pool not found'')"
  by (simp add: FetchPool_def)

lemma joinPool_effect:
  assumes "joinPool p sender pool swapTargets swapAmount s = Inr s'"
  shows "\<exists>sp'. stores s sp' s' \<and>
           adjusted (snapshot s pool) swapAmount (\<lambda>d. listed d swapTargets) sp'"
proof -
  from assms obtain b h where
    save: "joinPool_save (Records pool) swapTargets (heap s) = Inr h" and
    s': "s' = StorePool
                (pool\<lparr>Token := (Token pool)\<lparr>TotalSupply := TotalSupply (Token pool) + swapAmount\<rparr>\<rparr>)
                (s\<lparr>bank := b, heap := h\<rparr>)"
    by (auto simp: joinPool_def split: sum.splits)
  define sp' where "sp' = snapshot (s\<lparr>bank := b, heap := h\<rparr>)
     (pool\<lparr>Token := (Token pool)\<lparr>TotalSupply := TotalSupply (Token pool) + swapAmount\<rparr>\<rparr>)"
  have "stores s sp' s'"
    by (simp add: stores_def s' StorePool_def sp'_def snapshot_def)
  moreover have "adjusted (snapshot s pool) swapAmount (\<lambda>d. listed d swapTargets) sp'"
    using joinPool_save_map [OF save]
    by (simp add: adjusted_def sp'_def snapshot_def)
  ultimately show ?thesis
    by blast
qed

lemma exitPool_effect:
  assumes "exitPool p sender pool swapTarget swapAmounts s = Inr s'"
  shows "\<exists>sp'. stores s sp' s' \<and>
           adjusted (snapshot s pool) (- swapTarget) (\<lambda>d. - listed d swapAmounts) sp'"
proof -
  from assms obtain b h where
    save: "exitPool_save (Records pool) swapAmounts (heap s) = Inr h" and
    s': "s' = StorePool
                (pool\<lparr>Token := (Token pool)\<lparr>TotalSupply := TotalSupply (Token pool) - swapTarget\<rparr>\<rparr>)
                (s\<lparr>bank := b, heap := h\<rparr>)"
    by (auto simp: exitPool_def split: sum.splits)
  define sp' where "sp' = snapshot (s\<lparr>bank := b, heap := h\<rparr>)
     (pool\<lparr>Token := (Token pool)\<lparr>TotalSupply := TotalSupply (Token pool) - swapTarget\<rparr>\<rparr>)"
  have "stores s sp' s'"
    by (simp add: stores_def s' StorePool_def sp'_def snapshot_def)
  moreover have "adjusted (snapshot s pool) (- swapTarget) (\<lambda>d. - listed d swapAmounts) sp'"
    using exitPool_save_map [OF save]
    by (simp add: adjusted_def sp'_def snapshot_def)
  ultimately show ?thesis
    by blast
qed

lemma stores_after_fetch:
  "stores s1 sp' s' \<Longrightarrow> kv s1 = kv s \<Longrightarrow> writes s1 = writes s \<Longrightarrow>
   next_pool_number s1 = next_pool_number s \<Longrightarrow> stores s sp' s'"
  by (simp add: stores_def)

lemma adjusted_trans:
  assumes "adjusted sp 0 f sp1" and "adjusted sp1 \<delta> g sp'"
  shows "adjusted sp \<delta> (\<lambda>d. f d + g d) sp'"
proof -
  have "map_of (Records sp') d =
          map_option (\<lambda>r. r\<lparr>Balance := Balance r + (f d + g d)\<rparr>) (map_of (Records sp) d)" for d
  proof (cases "map_of (Records sp) d")
    case None
    with assms show ?thesis by (simp add: adjusted_def)
  next
    case (Some r)
    with assms show ?thesis by (simp add: adjusted_def)
  qed
  moreover have "Token sp1 = Token sp"
    using assms(1) by (simp add: adjusted_def)
  ultimately show ?thesis
    using assms by (simp add: adjusted_def)
qed

lemma JoinPool_effect:
  assumes sp: "kv s poolId = Some sp"
    and run: "JoinPool p sender poolId poolAmountOut maxAmountsIn s = Inr s'"
  shows "\<exists>sp' f. stores s sp' s' \<and> adjusted sp poolAmountOut f sp' \<and>
           (\<forall>d. d \<notin> max_Denom ` set maxAmountsIn \<longrightarrow> f d = 0)"
proof -
  from FetchPool_Some [OF sp] obtain pool s1 where
    fetch: "FetchPool poolId s = Inr (pool, s1)" and snap: "snapshot s1 pool = sp" and
    same: "kv s1 = kv s" "writes s1 = writes s" "next_pool_number s1 = next_pool_number s"
    by blast
  from run fetch obtain poolRatio swapTargets where
    targets: "JoinPool_swapTargets poolRatio (heap s1 (Records pool)) maxAmountsIn [] = Inr swapTargets" and
    join: "joinPool p sender pool swapTargets poolAmountOut s1 = Inr s'"
    by (auto simp: JoinPool_def split: sum.splits if_splits)
  from JoinPool_swapTargets_denoms [OF targets] have
    den: "map Denom swapTargets = map max_Denom maxAmountsIn"
    by auto
  from joinPool_effect [OF join] snap obtain sp' where
    st: "stores s1 sp' s'" and adj: "adjusted sp poolAmountOut (\<lambda>d. listed d swapTargets) sp'"
    by auto
  have "Denom ` set swapTargets = max_Denom ` set maxAmountsIn"
    using den by (metis list.set_map)
  then have "\<forall>d. d \<notin> max_Denom ` set maxAmountsIn \<longrightarrow> listed d swapTargets = 0"
    by (simp add: listed_absent)
  with stores_after_fetch [OF st same] adj show ?thesis
    by blast
qed

lemma JoinPoolWithExternAmountIn_effect:
  assumes sp: "kv s poolId = Some sp"
    and run: "JoinPoolWithExternAmountIn p sender poolId tokenIn tokenAmountIn minPoolAmountOut s
                = Inr (poolAmountOut, s')"
  shows "\<exists>sp' f. stores s sp' s' \<and> adjusted sp poolAmountOut f sp' \<and>
           (\<forall>d. d \<noteq> tokenIn \<longrightarrow> f d = 0)"
proof -
  from FetchPool_Some [OF sp] obtain pool s1 where
    fetch: "FetchPool poolId s = Inr (pool, s1)" and snap: "snapshot s1 pool = sp" and
    same: "kv s1 = kv s" "writes s1 = writes s" "next_pool_number s1 = next_pool_number s"
    by blast
  from run fetch have
    join: "joinPool p sender pool [\<lparr>Denom = tokenIn, Amount = tokenAmountIn\<rparr>] poolAmountOut s1
             = Inr s'"
    by (auto simp: JoinPoolWithExternAmountIn_def split: sum.splits option.splits if_splits)
  from joinPool_effect [OF join] snap obtain sp' where
    st: "stores s1 sp' s'" and
    adj: "adjusted sp poolAmountOut
            (\<lambda>d. listed d [\<lparr>Denom = tokenIn, Amount = tokenAmountIn\<rparr>]) sp'"
    by auto
  have "\<forall>d. d \<noteq> tokenIn \<longrightarrow> listed d [\<lparr>Denom = tokenIn, Amount = tokenAmountIn\<rparr>] = 0"
    by (simp add: listed_Cons)
  with stores_after_fetch [OF st same] adj show ?thesis
    by blast
qed

lemma JoinPoolWithPoolAmountOut_effect:
  assumes sp: "kv s poolId = Some sp"
    and run: "JoinPoolWithPoolAmountOut p sender poolId tokenIn poolAmountOut maxAmountIn s
                = Inr (minted, s')"
  shows "\<exists>sp' f. stores s sp' s' \<and> adjusted sp minted f sp' \<and>
           (\<forall>d. d \<noteq> tokenIn \<longrightarrow> f d = 0)"
proof -
  from FetchPool_Some [OF sp] obtain pool s1 where
    fetch: "FetchPool poolId s = Inr (pool, s1)" and snap: "snapshot s1 pool = sp" and
    same: "kv s1 = kv s" "writes s1 = writes s" "next_pool_number s1 = next_pool_number s"
    by blast
  from run fetch obtain tokenAmountIn where
    join: "joinPool p sender pool [\<lparr>Denom = tokenIn, Amount = tokenAmountIn\<rparr>] minted s1
             = Inr s'"
    by (auto simp: JoinPoolWithPoolAmountOut_def split: sum.splits option.splits if_splits)
  from joinPool_effect [OF join] snap obtain sp' where
    st: "stores s1 sp' s'" and
    adj: "adjusted sp minted (\<lambda>d. listed d [\<lparr>Denom = tokenIn, Amount = tokenAmountIn\<rparr>]) sp'"
    by auto
  have "\<forall>d. d \<noteq> tokenIn \<longrightarrow> listed d [\<lparr>Denom = tokenIn, Amount = tokenAmountIn\<rparr>] = 0"
    by (simp add: listed_Cons)
  with stores_after_fetch [OF st same] adj show ?thesis
    by blast
qed

lemma ExitPool_effect:
  assumes sp: "kv s poolId = Some sp"
    and run: "ExitPool p sender poolId poolAmountIn minAmountsOut s = Inr s'"
  shows "\<exists>sp' f. stores s sp' s' \<and> adjusted sp (- poolAmountIn) f sp' \<and>
           (\<forall>d. d \<notin> min_Denom ` set minAmountsOut \<longrightarrow> f d = 0)"
proof -
  from FetchPool_Some [OF sp] obtain pool s1 where
    fetch: "FetchPool poolId s = Inr (pool, s1)" and snap: "snapshot s1 pool = sp" and
    same: "kv s1 = kv s" "writes s1 = writes s" "next_pool_number s1 = next_pool_number s"
    by blast
  from run fetch obtain poolRatio swapAmounts h where
    amounts: "ExitPool_swapAmounts poolRatio (Records pool) minAmountsOut [] (heap s1)
                = Inr (swapAmounts, h)" and
    exit: "exitPool p sender pool poolAmountIn swapAmounts (s1\<lparr>heap := h\<rparr>) = Inr s'"
    by (auto simp: ExitPool_def split: sum.splits if_splits prod.splits)
  from ExitPool_swapAmounts_effect [OF amounts] have
    den: "map Denom swapAmounts = map min_Denom minAmountsOut" and
    bal: "\<forall>d. map_of (h (Records pool)) d =
            map_option (\<lambda>r. r\<lparr>Balance := Balance r - listed d swapAmounts\<rparr>)
              (map_of (heap s1 (Records pool)) d)"
    by auto
  have first: "adjusted sp 0 (\<lambda>d. - listed d swapAmounts) (snapshot (s1\<lparr>heap := h\<rparr>) pool)"
    using bal snap by (auto simp: adjusted_def snapshot_def)
  from exitPool_effect [OF exit] obtain sp' where
    st: "stores (s1\<lparr>heap := h\<rparr>) sp' s'" and
    adj: "adjusted (snapshot (s1\<lparr>heap := h\<rparr>) pool) (- poolAmountIn)
            (\<lambda>d. - listed d swapAmounts) sp'"
    by auto
  have st': "stores s sp' s'"
    using st same by (simp add: stores_def)
  have "Denom ` set swapAmounts = min_Denom ` set minAmountsOut"
    using den by (metis list.set_map)
  then have "\<forall>d. d \<notin> min_Denom ` set minAmountsOut \<longrightarrow>
               - listed d swapAmounts + - listed d swapAmounts = 0"
    by (simp add: listed_absent)
  with st' adjusted_trans [OF first adj] show ?thesis
    by blast
qed

lemma ExitPoolWithPoolAmountIn_effect:
  assumes sp: "kv s poolId = Some sp"
    and run: "ExitPoolWithPoolAmountIn p sender poolId tokenOut poolAmountIn minAmountOut s
                = Inr (tokenAmountOut, s')"
  shows "\<exists>sp' f. stores s sp' s' \<and> adjusted sp (- poolAmountIn) f sp' \<and>
           (\<forall>d. d \<noteq> tokenOut \<longrightarrow> f d = 0)"
proof -
  from FetchPool_Some [OF sp] obtain pool s1 where
    fetch: "FetchPool poolId s = Inr (pool, s1)" and snap: "snapshot s1 pool = sp" and
    same: "kv s1 = kv s" "writes s1 = writes s" "next_pool_number s1 = next_pool_number s"
    by blast
  from run fetch have
    exit: "exitPool p sender pool poolAmountIn [\<lparr>Denom = tokenOut, Amount = tokenAmountOut\<rparr>] s1
             = Inr s'"
    by (auto simp: ExitPoolWithPoolAmountIn_def split: sum.splits option.splits if_splits)
  from exitPool_effect [OF exit] snap obtain sp' where
    st: "stores s1 sp' s'" and
    adj: "adjusted sp (- poolAmountIn)
            (\<lambda>d. - listed d [\<lparr>Denom = tokenOut, Amount = tokenAmountOut\<rparr>]) sp'"
    by auto
  have "\<forall>d. d \<noteq> tokenOut \<longrightarrow> - listed d [\<lparr>Denom = tokenOut, Amount = tokenAmountOut\<rparr>] = 0"
    by (simp add: listed_Cons)
  with stores_after_fetch [OF st same] adj show ?thesis
    by blast
qed

lemma ExitPoolWithExternAmountOut_effect:
  assumes sp: "kv s poolId = Some sp"
    and run: "ExitPoolWithExternAmountOut p sender poolId tokenOut tokenAmountOut maxPoolAmountIn s
                = Inr (poolAmountIn, s')"
  shows "\<exists>sp' f. stores s sp' s' \<and> adjusted sp (- poolAmountIn) f sp' \<and>
           (\<forall>d. d \<noteq> tokenOut \<longrightarrow> f d = 0)"
proof -
  from FetchPool_Some [OF sp] obtain pool s1 where
    fetch: "FetchPool poolId s = Inr (pool, s1)" and snap: "snapshot s1 pool = sp" and
    same: "kv s1 = kv s" "writes s1 = writes s" "next_pool_number s1 = next_pool_number s"
    by blast
  from run fetch have
    exit: "exitPool p sender pool poolAmountIn [\<lparr>Denom = tokenOut, Amount = tokenAmountOut\<rparr>] s1
             = Inr s'"
    by (auto simp: ExitPoolWithExternAmountOut_def split: sum.splits option.splits if_splits)
  from exitPool_effect [OF exit] snap obtain sp' where
    st: "stores s1 sp' s'" and
    adj: "adjusted sp (- poolAmountIn)
            (\<lambda>d. - listed d [\<lparr>Denom = tokenOut, Amount = tokenAmountOut\<rparr>]) sp'"
    by auto
  have "\<forall>d. d \<noteq> tokenOut \<longrightarrow> - listed d [\<lparr>Denom = tokenOut, Amount = tokenAmountOut\<rparr>] = 0"
    by (simp add: listed_Cons)
  with stores_after_fetch [OF st same] adj show ?thesis
    by blast
qed

lemma stored_after:
  assumes "stores s sp' s'" and "adjusted sp \<delta> f sp'"
  shows "kv s' (Id sp) = Some sp'"
  using assms by (simp add: stores_def adjusted_def)

text \<open>The definitions that a run of the service on a concrete state unfolds.\<close>

lemmas run_defs =
  JoinPool_def ExitPool_def JoinPoolWithExternAmountIn_def JoinPoolWithPoolAmountOut_def
  ExitPoolWithPoolAmountIn_def ExitPoolWithExternAmountOut_def joinPool_def exitPool_def
  FetchPool_def StorePool_def snapshot_def Quo_def ToDec_def NewDec_def precision_def tquo_def
  Mul_def TruncateInt_def GT_def maxInRatio_def maxOutRatio_def Balance_ToDec_def len_map_def
  range_map_def ledger_env_def mint_coins_def burn_coins_def ModuleName_def funded_def pool1_def

section \<open>The claims\<close>

subsection \<open>C3: supply conservation\<close>

text \<open>
  C3. For a pool \<open>sp\<close> stored under \<open>poolId\<close>, every successful join that mints \<open>\<Delta>\<close> shares
  leaves the stored pool with total supply \<open>TotalSupply + \<Delta>\<close>, and every successful exit
  that burns \<open>\<Delta>\<close> shares leaves it with \<open>TotalSupply - \<Delta>\<close>. The shares minted are
  \<^verbatim>\<open>poolAmountOut\<close> (an argument of \<^verbatim>\<open>JoinPool\<close> and \<^verbatim>\<open>JoinPoolWithPoolAmountOut\<close>, the
  result of \<^verbatim>\<open>JoinPoolWithExternAmountIn\<close>); the shares burned are \<^verbatim>\<open>poolAmountIn\<close> (an
  argument of \<^verbatim>\<open>ExitPool\<close> and \<^verbatim>\<open>ExitPoolWithPoolAmountIn\<close>, the result of
  \<^verbatim>\<open>ExitPoolWithExternAmountOut\<close>).
\<close>

theorem total_supply_conservation:
  assumes "kv s poolId = Some sp"
  shows
    "(JoinPool p sender poolId \<Delta> maxAmountsIn s = Inr s' \<longrightarrow>
        map_option (\<lambda>q. TotalSupply (Token q)) (kv s' (Id sp)) = Some (TotalSupply (Token sp) + \<Delta>)) \<and>
     (JoinPoolWithExternAmountIn p sender poolId token amount limit s = Inr (\<Delta>, s') \<longrightarrow>
        map_option (\<lambda>q. TotalSupply (Token q)) (kv s' (Id sp)) = Some (TotalSupply (Token sp) + \<Delta>)) \<and>
     (JoinPoolWithPoolAmountOut p sender poolId token \<Delta> limit s = Inr (res, s') \<longrightarrow>
        res = \<Delta> \<and>
        map_option (\<lambda>q. TotalSupply (Token q)) (kv s' (Id sp)) = Some (TotalSupply (Token sp) + \<Delta>)) \<and>
     (ExitPool p sender poolId \<Delta> minAmountsOut s = Inr s' \<longrightarrow>
        map_option (\<lambda>q. TotalSupply (Token q)) (kv s' (Id sp)) = Some (TotalSupply (Token sp) - \<Delta>)) \<and>
     (ExitPoolWithPoolAmountIn p sender poolId token \<Delta> limit s = Inr (res, s') \<longrightarrow>
        map_option (\<lambda>q. TotalSupply (Token q)) (kv s' (Id sp)) = Some (TotalSupply (Token sp) - \<Delta>)) \<and>
     (ExitPoolWithExternAmountOut p sender poolId token amount limit s = Inr (\<Delta>, s') \<longrightarrow>
        map_option (\<lambda>q. TotalSupply (Token q)) (kv s' (Id sp)) = Some (TotalSupply (Token sp) - \<Delta>))"
proof -
  have total: "map_option (\<lambda>q. TotalSupply (Token q)) (kv s' (Id sp))
                  = Some (TotalSupply (Token sp) + \<delta>)"
    if "stores s sp' s'" "adjusted sp \<delta> f sp'" for sp' \<delta> f
    using that stored_after [OF that] by (simp add: adjusted_def)
  have j1: "map_option (\<lambda>q. TotalSupply (Token q)) (kv s' (Id sp)) = Some (TotalSupply (Token sp) + \<Delta>)"
    if "JoinPool p sender poolId \<Delta> maxAmountsIn s = Inr s'"
    using JoinPool_effect [OF assms that] total by blast
  have j2: "map_option (\<lambda>q. TotalSupply (Token q)) (kv s' (Id sp)) = Some (TotalSupply (Token sp) + \<Delta>)"
    if "JoinPoolWithExternAmountIn p sender poolId token amount limit s = Inr (\<Delta>, s')"
    using JoinPoolWithExternAmountIn_effect [OF assms that] total by blast
  have j3: "res = \<Delta> \<and>
      map_option (\<lambda>q. TotalSupply (Token q)) (kv s' (Id sp)) = Some (TotalSupply (Token sp) + \<Delta>)"
    if run: "JoinPoolWithPoolAmountOut p sender poolId token \<Delta> limit s = Inr (res, s')"
  proof -
    have "res = \<Delta>"
      using run
      by (auto simp: JoinPoolWithPoolAmountOut_def split: sum.splits option.splits if_splits)
    with JoinPoolWithPoolAmountOut_effect [OF assms run] total show ?thesis
      by blast
  qed
  have e1: "map_option (\<lambda>q. TotalSupply (Token q)) (kv s' (Id sp)) = Some (TotalSupply (Token sp) - \<Delta>)"
    if "ExitPool p sender poolId \<Delta> minAmountsOut s = Inr s'"
    using ExitPool_effect [OF assms that] total [where \<delta> = "- \<Delta>"] by auto
  have e2: "map_option (\<lambda>q. TotalSupply (Token q)) (kv s' (Id sp)) = Some (TotalSupply (Token sp) - \<Delta>)"
    if "ExitPoolWithPoolAmountIn p sender poolId token \<Delta> limit s = Inr (res, s')"
    using ExitPoolWithPoolAmountIn_effect [OF assms that] total [where \<delta> = "- \<Delta>"] by auto
  have e3: "map_option (\<lambda>q. TotalSupply (Token q)) (kv s' (Id sp)) = Some (TotalSupply (Token sp) - \<Delta>)"
    if "ExitPoolWithExternAmountOut p sender poolId token amount limit s = Inr (\<Delta>, s')"
    using ExitPoolWithExternAmountOut_effect [OF assms that] total [where \<delta> = "- \<Delta>"] by auto
  from j1 j2 j3 e1 e2 e3 show ?thesis
    by blast
qed

text \<open>
  The six operations run on the pool of 100000000 shares: the joins leave 150000000,
  104880884 and 110000000 shares, the exits 90000000 each.
\<close>

theorem total_supply_conservation_witness:
  "(\<exists>s'. JoinPool (ledger_env 0) ''A'' 1 50000000
            [\<lparr>max_Denom = ''atom'', MaxAmount = 100\<rparr>, \<lparr>max_Denom = ''osmo'', MaxAmount = 100\<rparr>]
            funded = Inr s' \<and>
          map_option (\<lambda>q. TotalSupply (Token q)) (kv s' 1) = Some 150000000) \<and>
   (\<exists>s'. JoinPoolWithExternAmountIn (ledger_env 4880884) ''A'' 1 ''atom'' 10 0 funded
            = Inr (4880884, s') \<and>
          map_option (\<lambda>q. TotalSupply (Token q)) (kv s' 1) = Some 104880884) \<and>
   (\<exists>s'. JoinPoolWithPoolAmountOut (ledger_env 21) ''A'' 1 ''atom'' 10000000 100 funded
            = Inr (10000000, s') \<and>
          map_option (\<lambda>q. TotalSupply (Token q)) (kv s' 1) = Some 110000000) \<and>
   (\<exists>s'. ExitPool (ledger_env 0) ''A'' 1 10000000
            [\<lparr>min_Denom = ''atom'', MinAmount = 0\<rparr>, \<lparr>min_Denom = ''osmo'', MinAmount = 0\<rparr>]
            funded = Inr s' \<and>
          map_option (\<lambda>q. TotalSupply (Token q)) (kv s' 1) = Some 90000000) \<and>
   (\<exists>s'. ExitPoolWithPoolAmountIn (ledger_env 19) ''A'' 1 ''atom'' 10000000 0 funded
            = Inr (19, s') \<and>
          map_option (\<lambda>q. TotalSupply (Token q)) (kv s' 1) = Some 90000000) \<and>
   (\<exists>s'. ExitPoolWithExternAmountOut (ledger_env 10000000) ''A'' 1 ''atom'' 19 100000000 funded
            = Inr (10000000, s') \<and>
          map_option (\<lambda>q. TotalSupply (Token q)) (kv s' 1) = Some 90000000)"
proof -
  have held: "kv funded 1 = Some pool1"
    by (simp add: funded_def)
  have id: "Id pool1 = 1" and total: "TotalSupply (Token pool1) = 100000000"
    by (simp_all add: pool1_def)
  note inst = total_supply_conservation [OF held, unfolded id total]
  have "\<exists>s'. JoinPool (ledger_env 0) ''A'' 1 50000000
            [\<lparr>max_Denom = ''atom'', MaxAmount = 100\<rparr>, \<lparr>max_Denom = ''osmo'', MaxAmount = 100\<rparr>]
            funded = Inr s'"
    by (simp add: run_defs)
  then have c1: "\<exists>s'. JoinPool (ledger_env 0) ''A'' 1 50000000
            [\<lparr>max_Denom = ''atom'', MaxAmount = 100\<rparr>, \<lparr>max_Denom = ''osmo'', MaxAmount = 100\<rparr>]
            funded = Inr s' \<and>
          map_option (\<lambda>q. TotalSupply (Token q)) (kv s' 1) = Some 150000000"
    using inst [THEN conjunct1] by fastforce
  have "\<exists>s'. JoinPoolWithExternAmountIn (ledger_env 4880884) ''A'' 1 ''atom'' 10 0 funded
            = Inr (4880884, s')"
    by (simp add: run_defs)
  then have c2: "\<exists>s'. JoinPoolWithExternAmountIn (ledger_env 4880884) ''A'' 1 ''atom'' 10 0 funded
            = Inr (4880884, s') \<and>
          map_option (\<lambda>q. TotalSupply (Token q)) (kv s' 1) = Some 104880884"
    using inst [THEN conjunct2, THEN conjunct1] by fastforce
  have "\<exists>s'. JoinPoolWithPoolAmountOut (ledger_env 21) ''A'' 1 ''atom'' 10000000 100 funded
            = Inr (10000000, s')"
    by (simp add: run_defs)
  then have c3: "\<exists>s'. JoinPoolWithPoolAmountOut (ledger_env 21) ''A'' 1 ''atom'' 10000000 100 funded
            = Inr (10000000, s') \<and>
          map_option (\<lambda>q. TotalSupply (Token q)) (kv s' 1) = Some 110000000"
    using inst [THEN conjunct2, THEN conjunct2, THEN conjunct1] by fastforce
  have "\<exists>s'. ExitPool (ledger_env 0) ''A'' 1 10000000
            [\<lparr>min_Denom = ''atom'', MinAmount = 0\<rparr>, \<lparr>min_Denom = ''osmo'', MinAmount = 0\<rparr>]
            funded = Inr s'"
    by (simp add: run_defs)
  then have c4: "\<exists>s'. ExitPool (ledger_env 0) ''A'' 1 10000000
            [\<lparr>min_Denom = ''atom'', MinAmount = 0\<rparr>, \<lparr>min_Denom = ''osmo'', MinAmount = 0\<rparr>]
            funded = Inr s' \<and>
          map_option (\<lambda>q. TotalSupply (Token q)) (kv s' 1) = Some 90000000"
    using inst [THEN conjunct2, THEN conjunct2, THEN conjunct2, THEN conjunct1] by fastforce
  have "\<exists>s'. ExitPoolWithPoolAmountIn (ledger_env 19) ''A'' 1 ''atom'' 10000000 0 funded
            = Inr (19, s')"
    by (simp add: run_defs)
  then have c5: "\<exists>s'. ExitPoolWithPoolAmountIn (ledger_env 19) ''A'' 1 ''atom'' 10000000 0 funded
            = Inr (19, s') \<and>
          map_option (\<lambda>q. TotalSupply (Token q)) (kv s' 1) = Some 90000000"
    using inst [THEN conjunct2, THEN conjunct2, THEN conjunct2, THEN conjunct2, THEN conjunct1]
    by fastforce
  have "\<exists>s'. ExitPoolWithExternAmountOut (ledger_env 10000000) ''A'' 1 ''atom'' 19 100000000 funded
            = Inr (10000000, s')"
    by (simp add: run_defs)
  then have c6: "\<exists>s'. ExitPoolWithExternAmountOut (ledger_env 10000000) ''A'' 1 ''atom'' 19 100000000 funded
            = Inr (10000000, s') \<and>
          map_option (\<lambda>q. TotalSupply (Token q)) (kv s' 1) = Some 90000000"
    using inst [THEN conjunct2, THEN conjunct2, THEN conjunct2, THEN conjunct2, THEN conjunct2]
    by fastforce
  from c1 c2 c3 c4 c5 c6 show ?thesis
    by blast
qed

lemma serve_effect:
  assumes sp: "kv s poolId = Some sp"
    and run: "serve p sender poolId req s = Inr s'"
  shows "\<exists>sp' \<delta> f. stores s sp' s' \<and> adjusted sp \<delta> f sp' \<and>
           (\<forall>d. d \<notin> coin_denoms req \<longrightarrow> f d = 0)"
proof (cases req)
  case (ReqJoinPool poolAmountOut maxAmountsIn)
  with run have "JoinPool p sender poolId poolAmountOut maxAmountsIn s = Inr s'"
    by simp
  from JoinPool_effect [OF sp this] ReqJoinPool show ?thesis
    by auto
next
  case (ReqJoinPoolWithExternAmountIn tokenIn tokenAmountIn minPoolAmountOut)
  with run obtain res where
    "JoinPoolWithExternAmountIn p sender poolId tokenIn tokenAmountIn minPoolAmountOut s
       = Inr (res, s')"
    by (cases "JoinPoolWithExternAmountIn p sender poolId tokenIn tokenAmountIn minPoolAmountOut s")
      auto
  from JoinPoolWithExternAmountIn_effect [OF sp this] ReqJoinPoolWithExternAmountIn show ?thesis
    by auto
next
  case (ReqJoinPoolWithPoolAmountOut tokenIn poolAmountOut maxAmountIn)
  with run obtain res where
    "JoinPoolWithPoolAmountOut p sender poolId tokenIn poolAmountOut maxAmountIn s = Inr (res, s')"
    by (cases "JoinPoolWithPoolAmountOut p sender poolId tokenIn poolAmountOut maxAmountIn s") auto
  from JoinPoolWithPoolAmountOut_effect [OF sp this] ReqJoinPoolWithPoolAmountOut show ?thesis
    by auto
next
  case (ReqExitPool poolAmountIn minAmountsOut)
  with run have "ExitPool p sender poolId poolAmountIn minAmountsOut s = Inr s'"
    by simp
  from ExitPool_effect [OF sp this] ReqExitPool show ?thesis
    by auto
next
  case (ReqExitPoolWithPoolAmountIn tokenOut poolAmountIn minAmountOut)
  with run obtain res where
    "ExitPoolWithPoolAmountIn p sender poolId tokenOut poolAmountIn minAmountOut s = Inr (res, s')"
    by (cases "ExitPoolWithPoolAmountIn p sender poolId tokenOut poolAmountIn minAmountOut s") auto
  from ExitPoolWithPoolAmountIn_effect [OF sp this] ReqExitPoolWithPoolAmountIn show ?thesis
    by auto
next
  case (ReqExitPoolWithExternAmountOut tokenOut tokenAmountOut maxPoolAmountIn)
  with run obtain res where
    "ExitPoolWithExternAmountOut p sender poolId tokenOut tokenAmountOut maxPoolAmountIn s
       = Inr (res, s')"
    by (cases "ExitPoolWithExternAmountOut p sender poolId tokenOut tokenAmountOut maxPoolAmountIn s")
      auto
  from ExitPoolWithExternAmountOut_effect [OF sp this] ReqExitPoolWithExternAmountOut
  show ?thesis
    by auto
qed

lemma adjusted_weight:
  assumes "adjusted sp \<delta> f sp'"
  shows "map_option DenormalizedWeight (map_of (Records sp') d)
           = map_option DenormalizedWeight (map_of (Records sp) d)"
  using assms by (cases "map_of (Records sp) d") (simp_all add: adjusted_def)

lemma adjusted_dom:
  assumes "adjusted sp \<delta> f sp'"
  shows "dom (map_of (Records sp')) = dom (map_of (Records sp))"
  using assms by (auto simp: adjusted_def dom_def)

lemma adjusted_unlisted:
  assumes "adjusted sp \<delta> f sp'" and "f d = 0"
  shows "map_of (Records sp') d = map_of (Records sp) d"
  using assms by (cases "map_of (Records sp) d") (simp_all add: adjusted_def)

lemmas serve_defs =
  final_def stored_in_def written_by_def balance_of_def failure_def supply_of_def holding_def
  and_then_def

subsection \<open>C8: weight invariance\<close>

text \<open>
  C8. For a pool \<open>sp\<close> stored under \<open>poolId\<close> and every successful join or exit, the store
  holds afterwards, under the pool's id, a pool with the same \<^verbatim>\<open>total_weight\<close> and, for
  every denom, the same \<^verbatim>\<open>denormalized_weight\<close> (and no record gained or lost).
\<close>

theorem weights_unchanged:
  assumes "kv s poolId = Some sp"
    and "serve p sender poolId req s = Inr s'"
  shows "\<exists>sp'. kv s' (Id sp) = Some sp' \<and> TotalWeight sp' = TotalWeight sp \<and>
           (\<forall>d. map_option DenormalizedWeight (map_of (Records sp') d)
                  = map_option DenormalizedWeight (map_of (Records sp) d))"
proof -
  from serve_effect [OF assms] obtain sp' \<delta> f where
    st: "stores s sp' s'" and adj: "adjusted sp \<delta> f sp'"
    by blast
  have "kv s' (Id sp) = Some sp'"
    by (rule stored_after [OF st adj])
  moreover have "TotalWeight sp' = TotalWeight sp"
    using adj by (simp add: adjusted_def)
  ultimately show ?thesis
    using adjusted_weight [OF adj] by blast
qed

text \<open>
  A proportional join and a single-asset exit on the pool of two assets of weight 1: the
  total weight stays 2 and the weight of atom stays 1.
\<close>

theorem weights_unchanged_witness:
  "(\<exists>s' sp'. serve (ledger_env 0) ''A'' 1
        (ReqJoinPool 50000000
           [\<lparr>max_Denom = ''atom'', MaxAmount = 100\<rparr>, \<lparr>max_Denom = ''osmo'', MaxAmount = 100\<rparr>])
        funded = Inr s' \<and>
      kv s' 1 = Some sp' \<and> TotalWeight sp' = NewDec 2 \<and>
      map_option DenormalizedWeight (map_of (Records sp') ''atom'') = Some (NewDec 1)) \<and>
   (\<exists>s' sp'. serve (ledger_env 19) ''A'' 1 (ReqExitPoolWithPoolAmountIn ''atom'' 10000000 0)
        funded = Inr s' \<and>
      kv s' 1 = Some sp' \<and> TotalWeight sp' = NewDec 2 \<and>
      map_option DenormalizedWeight (map_of (Records sp') ''atom'') = Some (NewDec 1))"
proof -
  have held: "kv funded 1 = Some pool1"
    by (simp add: funded_def)
  have pool: "Id pool1 = 1" "TotalWeight pool1 = NewDec 2"
    "map_option DenormalizedWeight (map_of (Records pool1) ''atom'') = Some (NewDec 1)"
    by (simp_all add: pool1_def)
  have "\<exists>s'. serve (ledger_env 0) ''A'' 1
        (ReqJoinPool 50000000
           [\<lparr>max_Denom = ''atom'', MaxAmount = 100\<rparr>, \<lparr>max_Denom = ''osmo'', MaxAmount = 100\<rparr>])
        funded = Inr s'"
    by (simp add: run_defs)
  then obtain s1 where run1: "serve (ledger_env 0) ''A'' 1
        (ReqJoinPool 50000000
           [\<lparr>max_Denom = ''atom'', MaxAmount = 100\<rparr>, \<lparr>max_Denom = ''osmo'', MaxAmount = 100\<rparr>])
        funded = Inr s1"
    by blast
  have "\<exists>s'. serve (ledger_env 19) ''A'' 1 (ReqExitPoolWithPoolAmountIn ''atom'' 10000000 0)
        funded = Inr s'"
    by (simp add: run_defs)
  then obtain s2 where run2: "serve (ledger_env 19) ''A'' 1
        (ReqExitPoolWithPoolAmountIn ''atom'' 10000000 0) funded = Inr s2"
    by blast
  from weights_unchanged [OF held run1] weights_unchanged [OF held run2] run1 run2 pool
  show ?thesis
    by metis
qed

subsection \<open>C10: the frame of a join or an exit\<close>

text \<open>
  C10. For a pool \<open>sp\<close> stored under \<open>poolId\<close> and every successful join or exit, the pool
  stored afterwards has the same id, swap fee, share denom and description, the same total
  weight, the same denoms with the same weights, and the same record for every denom that
  is not in the coin list of the call; the pools under the other ids are untouched. Only
  the total supply and the balances of the listed denoms can differ.
\<close>

theorem join_exit_frame:
  assumes "kv s poolId = Some sp"
    and "serve p sender poolId req s = Inr s'"
  shows "\<exists>sp'. kv s' (Id sp) = Some sp' \<and>
           Id sp' = Id sp \<and> SwapFee sp' = SwapFee sp \<and>
           lp_Denom (Token sp') = lp_Denom (Token sp) \<and>
           Description (Token sp') = Description (Token sp) \<and>
           TotalWeight sp' = TotalWeight sp \<and>
           dom (map_of (Records sp')) = dom (map_of (Records sp)) \<and>
           (\<forall>d. map_option DenormalizedWeight (map_of (Records sp') d)
                  = map_option DenormalizedWeight (map_of (Records sp) d)) \<and>
           (\<forall>d. d \<notin> coin_denoms req \<longrightarrow> map_of (Records sp') d = map_of (Records sp) d) \<and>
           (\<forall>i. i \<noteq> Id sp \<longrightarrow> kv s' i = kv s i)"
proof -
  from serve_effect [OF assms] obtain sp' \<delta> f where
    st: "stores s sp' s'" and adj: "adjusted sp \<delta> f sp'" and
    zero: "\<forall>d. d \<notin> coin_denoms req \<longrightarrow> f d = 0"
    by blast
  have "kv s' (Id sp) = Some sp'"
    by (rule stored_after [OF st adj])
  moreover have "Id sp' = Id sp" "SwapFee sp' = SwapFee sp" "TotalWeight sp' = TotalWeight sp"
    "lp_Denom (Token sp') = lp_Denom (Token sp)" "Description (Token sp') = Description (Token sp)"
    using adj by (simp_all add: adjusted_def)
  moreover have "\<forall>d. d \<notin> coin_denoms req \<longrightarrow> map_of (Records sp') d = map_of (Records sp) d"
    using adjusted_unlisted [OF adj] zero by blast
  moreover have "\<forall>i. i \<noteq> Id sp \<longrightarrow> kv s' i = kv s i"
    using st adj by (simp add: stores_def adjusted_def)
  ultimately show ?thesis
    using adjusted_weight [OF adj] adjusted_dom [OF adj] by blast
qed

text \<open>
  A single-asset join of 10 atom on the pool of 100 atom and 100 osmo: the record of
  osmo, which is not listed, still holds 100, and the pool keeps its id and share denom.
\<close>

theorem join_exit_frame_witness:
  "\<exists>s' sp'. serve (ledger_env 4880884) ''A'' 1 (ReqJoinPoolWithExternAmountIn ''atom'' 10 0)
        funded = Inr s' \<and>
      ''osmo'' \<notin> coin_denoms (ReqJoinPoolWithExternAmountIn ''atom'' 10 0) \<and>
      kv s' 1 = Some sp' \<and> Id sp' = 1 \<and> lp_Denom (Token sp') = ''osmosis/pool/1'' \<and>
      map_option Balance (map_of (Records sp') ''osmo'') = Some 100 \<and>
      kv s' 2 = None"
proof -
  have held: "kv funded 1 = Some pool1"
    by (simp add: funded_def)
  have pool: "Id pool1 = 1" "lp_Denom (Token pool1) = ''osmosis/pool/1''"
    "map_option Balance (map_of (Records pool1) ''osmo'') = Some 100"
    by (simp_all add: pool1_def)
  have other: "kv funded 2 = None"
    by (simp add: funded_def)
  have unlisted: "''osmo'' \<notin> coin_denoms (ReqJoinPoolWithExternAmountIn ''atom'' 10 0)"
    by simp
  have "\<exists>s'. serve (ledger_env 4880884) ''A'' 1 (ReqJoinPoolWithExternAmountIn ''atom'' 10 0)
        funded = Inr s'"
    by (simp add: run_defs)
  then obtain s1 where run: "serve (ledger_env 4880884) ''A'' 1
        (ReqJoinPoolWithExternAmountIn ''atom'' 10 0) funded = Inr s1"
    by blast
  from join_exit_frame [OF held run] obtain sp' where
    "kv s1 (Id pool1) = Some sp'" "Id sp' = Id pool1"
    "lp_Denom (Token sp') = lp_Denom (Token pool1)"
    "\<forall>d. d \<notin> coin_denoms (ReqJoinPoolWithExternAmountIn ''atom'' 10 0) \<longrightarrow>
       map_of (Records sp') d = map_of (Records pool1) d"
    "\<forall>i. i \<noteq> Id pool1 \<longrightarrow> kv s1 i = kv funded i"
    by blast
  with pool other unlisted run show ?thesis
    by (intro exI [of _ s1] exI [of _ sp']) simp
qed

subsection \<open>What CreatePool leaves in the store\<close>

lemma CreatePool_records_other: "a' \<noteq> a \<Longrightarrow> CreatePool_records a bindTokens h a' = h a'"
  by (induction bindTokens arbitrary: h) auto

lemma CreatePool_records_dom:
  "dom (map_of (CreatePool_records a bindTokens h a))
     = dom (map_of (h a)) \<union> bind_Denom ` set bindTokens"
  by (induction bindTokens arbitrary: h) (auto simp: update_conv')

lemma CreatePool_coins_denoms:
  "map Denom (CreatePool_coins rs coins) = map Denom coins @ map fst rs"
  by (induction rs coins rule: CreatePool_coins.induct) auto

lemma CreatePool_assemble_props:
  assumes "CreatePool_assemble swapFee lpToken bindTokens s = (pool, coins, s4)"
  shows "Id pool = next_pool_number s" and "TotalSupply (Token pool) = 0"
    and "kv s4 = (kv s)(Id pool \<mapsto> snapshot s4 pool)"
    and "writes s4 = writes s @ [snapshot s4 pool]"
    and "dom (map_of (heap s4 (Records pool))) = bind_Denom ` set bindTokens"
    and "map Denom coins = map fst (range_map (heap s4 (Records pool)))"
proof -
  define a where "a = heap_next s"
  define h where "h = CreatePool_records a bindTokens ((heap s)(a := []))"
  have pool: "Id pool = next_pool_number s" "TotalSupply (Token pool) = 0" "Records pool = a"
    and s4: "heap s4 = h" "kv s4 = (kv s)(Id pool \<mapsto> snapshot s4 pool)"
      "writes s4 = writes s @ [snapshot s4 pool]"
    and coins: "coins = CreatePool_coins (range_map (h a)) []"
    using assms
    by (auto simp: CreatePool_assemble_def Let_def GetNextPoolNumber_def StorePool_def
        snapshot_def a_def h_def)
  show "Id pool = next_pool_number s" "TotalSupply (Token pool) = 0"
    "kv s4 = (kv s)(Id pool \<mapsto> snapshot s4 pool)" "writes s4 = writes s @ [snapshot s4 pool]"
    by (fact pool s4)+
  show "dom (map_of (heap s4 (Records pool))) = bind_Denom ` set bindTokens"
    by (simp add: pool s4 h_def CreatePool_records_dom)
  show "map Denom coins = map fst (range_map (heap s4 (Records pool)))"
    by (simp add: pool s4 coins CreatePool_coins_denoms)
qed

lemma card_denoms:
  assumes "bindTokens \<noteq> []"
  shows "1 \<le> card (bind_Denom ` set bindTokens)"
    and "card (bind_Denom ` set bindTokens) \<le> length bindTokens"
    and "distinct (map bind_Denom bindTokens) \<Longrightarrow>
           card (bind_Denom ` set bindTokens) = length bindTokens"
proof -
  have "bind_Denom ` set bindTokens \<noteq> {}" "finite (bind_Denom ` set bindTokens)"
    using assms by simp_all
  then show "1 \<le> card (bind_Denom ` set bindTokens)"
    by (simp add: Suc_le_eq card_gt_0_iff)
  have "card (bind_Denom ` set bindTokens) \<le> card (set bindTokens)"
    by (rule card_image_le) simp
  also have "\<dots> \<le> length bindTokens"
    by (rule card_length)
  finally show "card (bind_Denom ` set bindTokens) \<le> length bindTokens" .
  show "card (bind_Denom ` set bindTokens) = length bindTokens"
    if "distinct (map bind_Denom bindTokens)"
    using distinct_card [OF that] by simp
qed

lemma CreatePool_effect:
  assumes "CreatePool p sender swapFee lpToken bindTokens s = Inr (poolId, s')"
  shows "\<exists>sp0 sp'. writes s' = writes s @ [sp0, sp'] \<and> kv s' = (kv s)(poolId \<mapsto> sp') \<and>
           poolId = next_pool_number s \<and> Id sp0 = poolId \<and> Id sp' = poolId \<and>
           TotalSupply (Token sp0) = 0 \<and> TotalSupply (Token sp') = 100000000 \<and>
           dom (map_of (Records sp')) = bind_Denom ` set bindTokens \<and>
           2 \<le> length bindTokens \<and> length bindTokens \<le> 8"
proof -
  from assms have len: "2 \<le> length bindTokens" "length bindTokens \<le> 8"
    by (auto simp: CreatePool_def split: if_splits)
  obtain pool coins s4 where
    asm: "CreatePool_assemble swapFee lpToken bindTokens s = (pool, coins, s4)"
    by (metis prod_cases3)
  with assms len have
    join: "joinPool p sender pool (Sort coins) (NewIntWithDecimal 100 6) s4 = Inr s'" and
    id: "poolId = Id pool"
    by (auto simp: CreatePool_def split: if_splits sum.splits)
  note props = CreatePool_assemble_props [OF asm]
  from joinPool_effect [OF join] obtain sp' where
    st: "stores s4 sp' s'" and
    adj: "adjusted (snapshot s4 pool) (NewIntWithDecimal 100 6) (\<lambda>d. listed d (Sort coins)) sp'"
    by blast
  have ids: "Id sp' = Id pool" "Id (snapshot s4 pool) = Id pool"
    using adj by (simp_all add: adjusted_def snapshot_def)
  have "writes s' = writes s @ [snapshot s4 pool, sp']"
    using st props(4) by (simp add: stores_def)
  moreover have "kv s' = (kv s)(poolId \<mapsto> sp')"
    using st props(3) ids id by (simp add: stores_def)
  moreover have "TotalSupply (Token (snapshot s4 pool)) = 0"
    using props(2) by (simp add: snapshot_def)
  moreover have "TotalSupply (Token sp') = 100000000"
    using adj props(2) by (simp add: adjusted_def snapshot_def NewIntWithDecimal_def)
  moreover have "dom (map_of (Records sp')) = bind_Denom ` set bindTokens"
    using adjusted_dom [OF adj] props(5) by (simp add: snapshot_def)
  ultimately show ?thesis
    using ids id props(1) len by blast
qed

lemma joinPool_save_error:
  "joinPool_save a targets h = Inl err \<Longrightarrow> err = Panic ''nil pointer dereference''"
  by (induction targets arbitrary: h) (auto split: option.splits)

lemma joinPool_error:
  "joinPool p sender pool swapTargets swapAmount s = Inl err \<Longrightarrow>
   (\<exists>msg. err = ErrBank msg) \<or> err = Panic ''nil pointer dereference''"
  by (auto simp: joinPool_def split: sum.splits dest: joinPool_save_error)

lemma serve_NotFound:
  "kv s poolId = None \<Longrightarrow> serve p sender poolId req s = Inl (ErrNotFound ''pool not found'')"
  by (cases req)
    (simp_all add: FetchPool_None JoinPool_def ExitPool_def JoinPoolWithExternAmountIn_def
      JoinPoolWithPoolAmountOut_def ExitPoolWithPoolAmountIn_def ExitPoolWithExternAmountOut_def)

lemmas create_defs =
  CreatePool_def CreatePool_assemble_def GetNextPoolNumber_def Sort_def NewIntWithDecimal_def
  Dec_Add_def genesis_def atom_osmo_def decimal.simps Let_def

subsection \<open>C2: writes to the pool store\<close>

text \<open>
  C2, as the claim states it, fails on \<^verbatim>\<open>CreatePool\<close>: the run of scenario S1 writes the pool
  to the store twice, at line 165 and again at line 109 of \<^verbatim>\<open>joinPool\<close>.
\<close>

theorem CreatePool_writes_twice:
  "length (written_by (final (CreatePool (ledger_env 0) ''A'' (Dec 10000000000000000)
       \<lparr>info_Denom = [], info_Description = []\<rparr> atom_osmo genesis))) = 2"
  by (simp add: run_defs create_defs serve_defs)

text \<open>
  C2, amended. Every successful join and every successful exit appends exactly one pool to
  the log of writes. A successful \<^verbatim>\<open>CreatePool\<close> appends exactly two: the pool as assembled,
  with total supply 0, and then the pool that \<^verbatim>\<open>joinPool\<close> saves, with the initial supply of
  100000000; the store holds the second under the new id.
\<close>

theorem store_pool_writes:
  "(serve p sender poolId req s = Inr s' \<longrightarrow> (\<exists>sp'. writes s' = writes s @ [sp'])) \<and>
   (CreatePool p sender swapFee lpToken bindTokens s = Inr (newId, s'') \<longrightarrow>
      (\<exists>sp0 sp'. writes s'' = writes s @ [sp0, sp'] \<and>
         TotalSupply (Token sp0) = 0 \<and> TotalSupply (Token sp') = 100000000 \<and>
         kv s'' newId = Some sp'))"
proof -
  have "\<exists>sp'. writes s' = writes s @ [sp']"
    if run: "serve p sender poolId req s = Inr s'"
  proof (cases "kv s poolId")
    case None
    from serve_NotFound [OF this] run show ?thesis
      by simp
  next
    case (Some sp)
    from serve_effect [OF Some run] show ?thesis
      by (auto simp: stores_def)
  qed
  moreover have "\<exists>sp0 sp'. writes s'' = writes s @ [sp0, sp'] \<and>
         TotalSupply (Token sp0) = 0 \<and> TotalSupply (Token sp') = 100000000 \<and>
         kv s'' newId = Some sp'"
    if "CreatePool p sender swapFee lpToken bindTokens s = Inr (newId, s'')"
    using CreatePool_effect [OF that] by auto
  ultimately show ?thesis
    by blast
qed

text \<open>One write by a proportional exit on the funded pool, two by scenario S1.\<close>

theorem store_pool_writes_witness:
  "(\<exists>s' sp'. serve (ledger_env 0) ''A'' 1
        (ReqExitPool 10000000
           [\<lparr>min_Denom = ''atom'', MinAmount = 0\<rparr>, \<lparr>min_Denom = ''osmo'', MinAmount = 0\<rparr>])
        funded = Inr s' \<and> writes s' = [sp']) \<and>
   (\<exists>s'' sp0 sp'. CreatePool (ledger_env 0) ''A'' (Dec 10000000000000000)
        \<lparr>info_Denom = [], info_Description = []\<rparr> atom_osmo genesis = Inr (1, s'') \<and>
      writes s'' = [sp0, sp'] \<and> TotalSupply (Token sp0) = 0 \<and>
      TotalSupply (Token sp') = 100000000 \<and> kv s'' 1 = Some sp')"
proof -
  have empty: "writes funded = []" "writes genesis = []"
    by (simp_all add: funded_def genesis_def)
  have "\<exists>s'. serve (ledger_env 0) ''A'' 1
        (ReqExitPool 10000000
           [\<lparr>min_Denom = ''atom'', MinAmount = 0\<rparr>, \<lparr>min_Denom = ''osmo'', MinAmount = 0\<rparr>])
        funded = Inr s'"
    by (simp add: run_defs)
  then obtain s1 where run1: "serve (ledger_env 0) ''A'' 1
        (ReqExitPool 10000000
           [\<lparr>min_Denom = ''atom'', MinAmount = 0\<rparr>, \<lparr>min_Denom = ''osmo'', MinAmount = 0\<rparr>])
        funded = Inr s1"
    by blast
  have "\<exists>s''. CreatePool (ledger_env 0) ''A'' (Dec 10000000000000000)
        \<lparr>info_Denom = [], info_Description = []\<rparr> atom_osmo genesis = Inr (1, s'')"
    by (simp add: run_defs create_defs)
  then obtain s2 where run2: "CreatePool (ledger_env 0) ''A'' (Dec 10000000000000000)
        \<lparr>info_Denom = [], info_Description = []\<rparr> atom_osmo genesis = Inr (1, s2)"
    by blast
  from store_pool_writes [THEN conjunct1, rule_format, OF run1] empty
  have one: "\<exists>sp'. writes s1 = [sp']"
    by simp
  from store_pool_writes [THEN conjunct2, rule_format, OF run2] empty
  have two: "\<exists>sp0 sp'. writes s2 = [sp0, sp'] \<and> TotalSupply (Token sp0) = 0 \<and>
      TotalSupply (Token sp') = 100000000 \<and> kv s2 1 = Some sp'"
    by simp
  from one two run1 run2 show ?thesis
    by blast
qed

subsection \<open>C4: the number of records of a created pool\<close>

text \<open>
  C4, as the claim states it, fails: two bind tokens of the same denom pass the check on
  the length of the list, and the pool that \<^verbatim>\<open>CreatePool\<close> persists has one record.
\<close>

theorem CreatePool_one_record:
  "map_option len_map (map_option Records (stored_in (final
     (CreatePool (ledger_env 0) ''A'' (Dec 10000000000000000)
        \<lparr>info_Denom = [], info_Description = []\<rparr>
        [\<lparr>bind_Denom = ''atom'', Weight = NewDec 1, bind_Amount = 100\<rparr>,
         \<lparr>bind_Denom = ''atom'', Weight = NewDec 1, bind_Amount = 100\<rparr>]
        genesis)) 1))
   = Some 1"
  by (simp add: run_defs create_defs serve_defs)

text \<open>
  C4, amended. The pool that a successful \<^verbatim>\<open>CreatePool\<close> persists has one record for each
  distinct denom of \<^verbatim>\<open>bindTokens\<close>: at least 1 and at most 8 records, and at least 2 when
  the denoms of \<^verbatim>\<open>bindTokens\<close> are pairwise distinct.
\<close>

theorem CreatePool_record_count:
  assumes "CreatePool p sender swapFee lpToken bindTokens s = Inr (poolId, s')"
  shows "\<exists>sp'. kv s' poolId = Some sp' \<and>
           len_map (Records sp') = card (bind_Denom ` set bindTokens) \<and>
           1 \<le> len_map (Records sp') \<and> len_map (Records sp') \<le> 8 \<and>
           (distinct (map bind_Denom bindTokens) \<longrightarrow> 2 \<le> len_map (Records sp'))"
proof -
  from CreatePool_effect [OF assms] obtain sp' where
    kv: "kv s' poolId = Some sp'" and
    dom: "dom (map_of (Records sp')) = bind_Denom ` set bindTokens" and
    len: "2 \<le> length bindTokens" "length bindTokens \<le> 8"
    by auto
  from len have ne: "bindTokens \<noteq> []"
    by auto
  have count: "len_map (Records sp') = card (bind_Denom ` set bindTokens)"
    by (simp add: len_map_card dom)
  moreover have "1 \<le> card (bind_Denom ` set bindTokens)"
    by (rule card_denoms(1) [OF ne])
  moreover have "card (bind_Denom ` set bindTokens) \<le> 8"
    using card_denoms(2) [OF ne] len by simp
  moreover have "2 \<le> card (bind_Denom ` set bindTokens)"
    if "distinct (map bind_Denom bindTokens)"
    using card_denoms(3) [OF ne that] len by simp
  ultimately show ?thesis
    using kv by auto
qed

text \<open>Scenario S1 has two distinct denoms, and its pool has two records.\<close>

theorem CreatePool_record_count_witness:
  "\<exists>s' sp'. CreatePool (ledger_env 0) ''A'' (Dec 10000000000000000)
        \<lparr>info_Denom = [], info_Description = []\<rparr> atom_osmo genesis = Inr (1, s') \<and>
      distinct (map bind_Denom atom_osmo) \<and> kv s' 1 = Some sp' \<and> len_map (Records sp') = 2"
proof -
  have "\<exists>s'. CreatePool (ledger_env 0) ''A'' (Dec 10000000000000000)
        \<lparr>info_Denom = [], info_Description = []\<rparr> atom_osmo genesis = Inr (1, s')"
    by (simp add: run_defs create_defs)
  then obtain s1 where run: "CreatePool (ledger_env 0) ''A'' (Dec 10000000000000000)
        \<lparr>info_Denom = [], info_Description = []\<rparr> atom_osmo genesis = Inr (1, s1)"
    by blast
  have two: "distinct (map bind_Denom atom_osmo)" "card (bind_Denom ` set atom_osmo) = 2"
    by (simp_all add: atom_osmo_def)
  from CreatePool_record_count [OF run] two run show ?thesis
    by auto
qed

subsection \<open>C9: the initial coin list is not empty\<close>

text \<open>
  C9. For every \<^verbatim>\<open>bindTokens\<close> of length 2 to 8, the coin list that \<^verbatim>\<open>CreatePool\<close> builds
  from the records is not empty, so \<^verbatim>\<open>CreatePool\<close> never takes the branch of line 175 and
  never panics with its message.
\<close>

theorem CreatePool_coins_not_empty:
  assumes "2 \<le> length bindTokens" and "length bindTokens \<le> 8"
  shows "fst (snd (CreatePool_assemble swapFee lpToken bindTokens s)) \<noteq> [] \<and>
         CreatePool p sender swapFee lpToken bindTokens s \<noteq> Inl (Panic ''oh my god'')"
proof -
  obtain pool coins s4 where
    asm: "CreatePool_assemble swapFee lpToken bindTokens s = (pool, coins, s4)"
    by (metis prod_cases3)
  note props = CreatePool_assemble_props [OF asm]
  from assms have "bindTokens \<noteq> []"
    by auto
  then have "dom (map_of (heap s4 (Records pool))) \<noteq> {}"
    using props(5) by simp
  then have "0 < len_map (heap s4 (Records pool))"
    unfolding len_map_card using finite_dom_map_of card_gt_0_iff by blast
  then have "range_map (heap s4 (Records pool)) \<noteq> []"
    by (simp add: len_map_def)
  with props(6) have coins: "coins \<noteq> []"
    by auto
  have "CreatePool p sender swapFee lpToken bindTokens s \<noteq> Inl (Panic ''oh my god'')"
    using assms asm coins
    by (auto simp: CreatePool_def split: sum.splits dest: joinPool_error)
  with asm coins show ?thesis
    by simp
qed

theorem CreatePool_coins_not_empty_witness:
  "2 \<le> length atom_osmo \<and> length atom_osmo \<le> 8 \<and>
   fst (snd (CreatePool_assemble (Dec 10000000000000000)
     \<lparr>info_Denom = [], info_Description = []\<rparr> atom_osmo genesis)) \<noteq> [] \<and>
   CreatePool (ledger_env 0) ''A'' (Dec 10000000000000000)
     \<lparr>info_Denom = [], info_Description = []\<rparr> atom_osmo genesis \<noteq> Inl (Panic ''oh my god'')"
proof -
  have len: "2 \<le> length atom_osmo" "length atom_osmo \<le> 8"
    by (simp_all add: atom_osmo_def)
  from CreatePool_coins_not_empty [OF len] len show ?thesis
    by blast
qed

subsection \<open>Errors of the proportional join and exit\<close>

lemma FetchPool_fields:
  "kv s poolId = Some sp \<Longrightarrow>
   \<exists>pool s1. FetchPool poolId s = Inr (pool, s1) \<and> Id pool = Id sp \<and> SwapFee pool = SwapFee sp \<and>
     Token pool = Token sp \<and> TotalWeight pool = TotalWeight sp \<and>
     heap s1 (Records pool) = Records sp \<and> snapshot s1 pool = sp \<and>
     kv s1 = kv s \<and> writes s1 = writes s \<and> next_pool_number s1 = next_pool_number s"
  by (simp add: FetchPool_def snapshot_def)

lemma exitPool_save_error:
  "exitPool_save a targets h = Inl err \<Longrightarrow> err = Panic ''nil pointer dereference''"
  by (induction targets arbitrary: h) (auto split: option.splits)

lemma exitPool_error:
  "exitPool p sender pool swapTarget swapAmounts s = Inl err \<Longrightarrow>
   (\<exists>msg. err = ErrBank msg) \<or> err = Panic ''nil pointer dereference''"
  by (auto simp: exitPool_def split: sum.splits dest: exitPool_save_error)

lemma checker_loop_error:
  "checker_loop denoms checker = Inl err \<Longrightarrow>
   err = ErrInvalidRequest ''do not use duplicated denom''"
  by (induction denoms arbitrary: checker) (auto split: if_splits)

lemma JoinPool_swapTargets_error:
  "JoinPool_swapTargets poolRatio records maxAmountsIn swapTargets = Inl err \<Longrightarrow>
   err \<noteq> Panic ''division by zero''"
  by (induction maxAmountsIn arbitrary: swapTargets)
    (auto simp: Balance_ToDec_def split: sum.splits option.splits if_splits)

lemma ExitPool_swapAmounts_error:
  "ExitPool_swapAmounts poolRatio a minAmountsOut swapAmounts h = Inl err \<Longrightarrow>
   err \<noteq> Panic ''division by zero''"
  by (induction minAmountsOut arbitrary: swapAmounts h)
    (auto simp: Balance_ToDec_def split: sum.splits option.splits if_splits)

lemma JoinPool_swapTargets_unknown:
  "\<exists>m\<in>set maxAmountsIn. map_of records (max_Denom m) = None \<Longrightarrow>
   \<exists>err. JoinPool_swapTargets poolRatio records maxAmountsIn swapTargets = Inl err"
  by (induction maxAmountsIn arbitrary: swapTargets)
    (auto simp: Balance_ToDec_def split: sum.splits option.splits if_splits)

lemma ExitPool_swapAmounts_unknown:
  "\<exists>m\<in>set minAmountsOut. map_of (h a) (min_Denom m) = None \<Longrightarrow>
   \<exists>err. ExitPool_swapAmounts poolRatio a minAmountsOut swapAmounts h = Inl err"
proof (induction minAmountsOut arbitrary: swapAmounts h)
  case Nil
  then show ?case by simp
next
  case (Cons m ms)
  show ?case
  proof (cases "map_of (h a) (min_Denom m)")
    case None
    then show ?thesis
      by (simp add: Balance_ToDec_def)
  next
    case (Some rcd)
    with Cons.prems obtain m' where
      m': "m' \<in> set ms" "map_of (h a) (min_Denom m') = None"
      by auto
    with Some have ne: "min_Denom m' \<noteq> min_Denom m"
      by auto
    define c where
      "c = \<lparr>Denom = min_Denom m, Amount = TruncateInt (Mul poolRatio (ToDec (Balance rcd)))\<rparr>"
    define h1 where "h1 = h(a := AList.update (min_Denom m)
      (rcd\<lparr>Balance := Balance rcd - TruncateInt (Mul poolRatio (ToDec (Balance rcd)))\<rparr>) (h a))"
    have "map_of (h1 a) (min_Denom m') = None"
      using m' ne by (simp add: h1_def update_conv')
    with m' have "\<exists>m\<in>set ms. map_of (h1 a) (min_Denom m) = None"
      by blast
    from Cons.IH [where h = h1 and swapAmounts = "swapAmounts @ [c]", OF this] obtain err where
      "ExitPool_swapAmounts poolRatio a ms (swapAmounts @ [c]) h1 = Inl err"
      by blast
    with Some show ?thesis
      by (simp add: Balance_ToDec_def h1_def c_def)
  qed
qed

lemma JoinPool_swapTargets_not_bound:
  "JoinPool_swapTargets poolRatio records maxAmountsIn swapTargets = Inl err \<Longrightarrow>
   err \<noteq> ErrInvalidRequest ''token is not bound to pool''"
  by (induction maxAmountsIn arbitrary: swapTargets)
    (auto simp: Balance_ToDec_def split: sum.splits option.splits if_splits)

lemma ExitPool_swapAmounts_not_bound:
  "ExitPool_swapAmounts poolRatio a minAmountsOut swapAmounts h = Inl err \<Longrightarrow>
   err \<noteq> ErrInvalidRequest ''token is not bound to pool''"
  by (induction minAmountsOut arbitrary: swapAmounts h)
    (auto simp: Balance_ToDec_def split: sum.splits option.splits if_splits)

subsection \<open>C7: a denom that is not a record of the pool\<close>

text \<open>
  C7 holds on the claim's side and fails on the code's. On the funded pool of atom and
  osmo, \<^verbatim>\<open>JoinPool\<close> for 50000000 shares with the list \<open>usd\<close>, \<open>atom\<close> passes the checks on
  the pool ratio, on duplicates and on the length of the list, and reaches the entry
  \<open>usd\<close>, which is not a record of the pool. Lines 224 to 228 compute \<^verbatim>\<open>tokenAmountIn\<close>
  from the zero \<^verbatim>\<open>Record\<close> of the failed lookup before line 229 tests \<^verbatim>\<open>ok\<close>: the call
  panics on the nil balance and never returns the InvalidRequest of line 230. The same
  holds when the unknown denom comes second, and for \<^verbatim>\<open>ExitPool\<close> (lines 440 to 447).
\<close>

theorem JoinPool_unknown_denom_panics:
  "map_of (Records pool1) ''usd'' = None \<and>
   failure (JoinPool (ledger_env 0) ''A'' 1 50000000
     [\<lparr>max_Denom = ''usd'', MaxAmount = 100\<rparr>, \<lparr>max_Denom = ''atom'', MaxAmount = 100\<rparr>] funded)
     = Some (Panic ''nil pointer dereference'') \<and>
   failure (JoinPool (ledger_env 0) ''A'' 1 50000000
     [\<lparr>max_Denom = ''atom'', MaxAmount = 100\<rparr>, \<lparr>max_Denom = ''usd'', MaxAmount = 100\<rparr>] funded)
     = Some (Panic ''nil pointer dereference'') \<and>
   failure (ExitPool (ledger_env 0) ''A'' 1 50000000
     [\<lparr>min_Denom = ''usd'', MinAmount = 0\<rparr>, \<lparr>min_Denom = ''atom'', MinAmount = 0\<rparr>] funded)
     = Some (Panic ''nil pointer dereference'')"
  by (simp add: run_defs serve_defs)

text \<open>
  The slip is not particular to that input: the branch of lines 229 to 231 (and of lines
  445 to 447) is dead. For every state and every input, neither \<^verbatim>\<open>JoinPool\<close> nor
  \<^verbatim>\<open>ExitPool\<close> returns the error ``token is not bound to pool'', and a list that names a
  denom outside the pool never lets the call succeed.
\<close>

lemma token_is_not_bound_never_returned:
  "JoinPool p sender poolId poolAmountOut maxAmountsIn s
     \<noteq> Inl (ErrInvalidRequest ''token is not bound to pool'') \<and>
   ExitPool p sender poolId poolAmountIn minAmountsOut s
     \<noteq> Inl (ErrInvalidRequest ''token is not bound to pool'')"
proof -
  have "JoinPool p sender poolId poolAmountOut maxAmountsIn s
     \<noteq> Inl (ErrInvalidRequest ''token is not bound to pool'')"
    by (auto simp: JoinPool_def FetchPool_def Quo_def split: sum.splits option.splits if_splits
        dest: checker_loop_error JoinPool_swapTargets_not_bound joinPool_error)
  moreover have "ExitPool p sender poolId poolAmountIn minAmountsOut s
     \<noteq> Inl (ErrInvalidRequest ''token is not bound to pool'')"
    by (auto simp: ExitPool_def FetchPool_def Quo_def split: sum.splits option.splits if_splits
        dest: checker_loop_error ExitPool_swapAmounts_not_bound exitPool_error)
  ultimately show ?thesis
    by blast
qed

lemma unknown_denom_never_succeeds:
  assumes "kv s poolId = Some sp"
  shows
    "((\<exists>m\<in>set maxAmountsIn. map_of (Records sp) (max_Denom m) = None) \<longrightarrow>
        (\<exists>err. JoinPool p sender poolId poolAmountOut maxAmountsIn s = Inl err)) \<and>
     ((\<exists>m\<in>set minAmountsOut. map_of (Records sp) (min_Denom m) = None) \<longrightarrow>
        (\<exists>err. ExitPool p sender poolId poolAmountIn minAmountsOut s = Inl err))"
proof -
  from FetchPool_fields [OF assms] obtain pool s1 where
    fetch: "FetchPool poolId s = Inr (pool, s1)" and
    recs: "heap s1 (Records pool) = Records sp"
    by blast
  have "\<exists>err. JoinPool p sender poolId poolAmountOut maxAmountsIn s = Inl err"
    if "\<exists>m\<in>set maxAmountsIn. map_of (Records sp) (max_Denom m) = None"
  proof -
    from JoinPool_swapTargets_unknown [OF that]
    have never: "JoinPool_swapTargets poolRatio (Records sp) maxAmountsIn [] \<noteq> Inr out"
      for poolRatio out
      by (metis sum.distinct(1))
    show ?thesis
      by (auto simp: JoinPool_def fetch recs never split: sum.splits)
  qed
  moreover have "\<exists>err. ExitPool p sender poolId poolAmountIn minAmountsOut s = Inl err"
    if "\<exists>m\<in>set minAmountsOut. map_of (Records sp) (min_Denom m) = None"
  proof -
    from that recs
    have "\<exists>m\<in>set minAmountsOut. map_of (heap s1 (Records pool)) (min_Denom m) = None"
      by simp
    from ExitPool_swapAmounts_unknown [where h = "heap s1" and a = "Records pool", OF this]
    have never: "ExitPool_swapAmounts poolRatio (Records pool) minAmountsOut [] (heap s1) \<noteq> Inr out"
      for poolRatio out
      by (metis sum.distinct(1))
    show ?thesis
      by (auto simp: ExitPool_def fetch never split: sum.splits)
  qed
  ultimately show ?thesis
    by blast
qed

subsection \<open>C6: division by the total supply\<close>

text \<open>
  C6, as the claim states it, fails. From the empty store, \<open>A\<close> creates the pool of
  scenario S1, joins with 100000000 more shares, exits with 50000000 and then with the
  remaining 150000000. Each call succeeds, the store then holds the pool with total
  supply 0, and the next \<^verbatim>\<open>JoinPool\<close> divides by zero at line 200.
\<close>

theorem JoinPool_divides_by_zero:
  "supply_of (stored_in
     (and_then (and_then (and_then
        (final (CreatePool (ledger_env 0) ''A'' (Dec 10000000000000000)
                  \<lparr>info_Denom = [], info_Description = []\<rparr> atom_osmo genesis))
        (JoinPool (ledger_env 0) ''A'' 1 100000000
           [\<lparr>max_Denom = ''atom'', MaxAmount = 200\<rparr>, \<lparr>max_Denom = ''osmo'', MaxAmount = 200\<rparr>]))
        (ExitPool (ledger_env 0) ''A'' 1 50000000
           [\<lparr>min_Denom = ''atom'', MinAmount = 0\<rparr>, \<lparr>min_Denom = ''osmo'', MinAmount = 0\<rparr>]))
        (ExitPool (ledger_env 0) ''A'' 1 150000000
           [\<lparr>min_Denom = ''atom'', MinAmount = 0\<rparr>, \<lparr>min_Denom = ''osmo'', MinAmount = 0\<rparr>]))
     1) = Some 0 \<and>
   failure
     (and_then (and_then (and_then (and_then
        (final (CreatePool (ledger_env 0) ''A'' (Dec 10000000000000000)
                  \<lparr>info_Denom = [], info_Description = []\<rparr> atom_osmo genesis))
        (JoinPool (ledger_env 0) ''A'' 1 100000000
           [\<lparr>max_Denom = ''atom'', MaxAmount = 200\<rparr>, \<lparr>max_Denom = ''osmo'', MaxAmount = 200\<rparr>]))
        (ExitPool (ledger_env 0) ''A'' 1 50000000
           [\<lparr>min_Denom = ''atom'', MinAmount = 0\<rparr>, \<lparr>min_Denom = ''osmo'', MinAmount = 0\<rparr>]))
        (ExitPool (ledger_env 0) ''A'' 1 150000000
           [\<lparr>min_Denom = ''atom'', MinAmount = 0\<rparr>, \<lparr>min_Denom = ''osmo'', MinAmount = 0\<rparr>]))
        (JoinPool (ledger_env 0) ''A'' 1 1
           [\<lparr>max_Denom = ''atom'', MaxAmount = 1\<rparr>, \<lparr>max_Denom = ''osmo'', MaxAmount = 1\<rparr>]))
   = Some (Panic ''division by zero'')"
  by (simp add: run_defs create_defs serve_defs)

text \<open>
  C6, amended. The divisor of \<^verbatim>\<open>JoinPool\<close> and of \<^verbatim>\<open>ExitPool\<close> is the total supply of the
  stored pool: for every input, the call ends in the zero-divisor panic of \<^verbatim>\<open>Dec.quo\<close>
  exactly when that total supply is 0. A successful \<^verbatim>\<open>CreatePool\<close> stores a total supply
  of 100000000, so the division is safe on a pool just created; the exits can bring the
  total supply to 0, and from then on both calls panic.
\<close>

theorem division_by_total_supply:
  assumes "kv s poolId = Some sp"
  shows
    "(JoinPool p sender poolId poolAmountOut maxAmountsIn s = Inl (Panic ''division by zero'')
        \<longleftrightarrow> TotalSupply (Token sp) = 0) \<and>
     (ExitPool p sender poolId poolAmountIn minAmountsOut s = Inl (Panic ''division by zero'')
        \<longleftrightarrow> TotalSupply (Token sp) = 0) \<and>
     (CreatePool p sender swapFee lpToken bindTokens s0 = Inr (newId, s') \<longrightarrow>
        supply_of (kv s' newId) = Some 100000000)"
proof -
  from FetchPool_fields [OF assms] obtain pool s1 where
    fetch: "FetchPool poolId s = Inr (pool, s1)" and token: "Token pool = Token sp"
    by blast
  have join: "JoinPool p sender poolId poolAmountOut maxAmountsIn s = Inl (Panic ''division by zero'')
      \<longleftrightarrow> TotalSupply (Token sp) = 0"
  proof (cases "TotalSupply (Token sp) = 0")
    case True
    then show ?thesis
      by (simp add: JoinPool_def fetch token Quo_ToDec)
  next
    case False
    then have "JoinPool p sender poolId poolAmountOut maxAmountsIn s \<noteq> Inl (Panic ''division by zero'')"
      by (auto simp: JoinPool_def fetch token Quo_ToDec split: sum.splits
          dest: checker_loop_error JoinPool_swapTargets_error joinPool_error)
    with False show ?thesis
      by simp
  qed
  have exit: "ExitPool p sender poolId poolAmountIn minAmountsOut s = Inl (Panic ''division by zero'')
      \<longleftrightarrow> TotalSupply (Token sp) = 0"
  proof (cases "TotalSupply (Token sp) = 0")
    case True
    then show ?thesis
      by (simp add: ExitPool_def fetch token Quo_ToDec)
  next
    case False
    then have "ExitPool p sender poolId poolAmountIn minAmountsOut s \<noteq> Inl (Panic ''division by zero'')"
      by (auto simp: ExitPool_def fetch token Quo_ToDec split: sum.splits
          dest: checker_loop_error ExitPool_swapAmounts_error exitPool_error)
    with False show ?thesis
      by simp
  qed
  have "supply_of (kv s' newId) = Some 100000000"
    if "CreatePool p sender swapFee lpToken bindTokens s0 = Inr (newId, s')"
    using CreatePool_effect [OF that] by (auto simp: supply_of_def)
  with join exit show ?thesis
    by blast
qed

text \<open>
  The funded pool has 100000000 shares and a proportional join on it does not panic in the
  division; the pool that scenario S1 creates has 100000000 shares.
\<close>

theorem division_by_total_supply_witness:
  "kv funded 1 = Some pool1 \<and> TotalSupply (Token pool1) \<noteq> 0 \<and>
   JoinPool (ledger_env 0) ''A'' 1 50000000
     [\<lparr>max_Denom = ''atom'', MaxAmount = 100\<rparr>, \<lparr>max_Denom = ''osmo'', MaxAmount = 100\<rparr>] funded
     \<noteq> Inl (Panic ''division by zero'') \<and>
   (\<exists>s'. CreatePool (ledger_env 0) ''A'' (Dec 10000000000000000)
        \<lparr>info_Denom = [], info_Description = []\<rparr> atom_osmo genesis = Inr (1, s') \<and>
      supply_of (kv s' 1) = Some 100000000)"
proof -
  have held: "kv funded 1 = Some pool1"
    by (simp add: funded_def)
  have shares: "TotalSupply (Token pool1) \<noteq> 0"
    by (simp add: pool1_def)
  have "\<exists>s'. CreatePool (ledger_env 0) ''A'' (Dec 10000000000000000)
        \<lparr>info_Denom = [], info_Description = []\<rparr> atom_osmo genesis = Inr (1, s')"
    by (simp add: run_defs create_defs)
  then obtain s1 where run: "CreatePool (ledger_env 0) ''A'' (Dec 10000000000000000)
        \<lparr>info_Denom = [], info_Description = []\<rparr> atom_osmo genesis = Inr (1, s1)"
    by blast
  from division_by_total_supply [OF held, THEN conjunct1] shares
  have "JoinPool (ledger_env 0) ''A'' 1 50000000
     [\<lparr>max_Denom = ''atom'', MaxAmount = 100\<rparr>, \<lparr>max_Denom = ''osmo'', MaxAmount = 100\<rparr>] funded
     \<noteq> Inl (Panic ''division by zero'')"
    by simp
  moreover have "supply_of (kv s1 1) = Some 100000000"
    using division_by_total_supply [OF held, THEN conjunct2, THEN conjunct2] run by blast
  ultimately show ?thesis
    using held shares run by blast
qed

subsection \<open>C1: the balances after a proportional exit\<close>

text \<open>
  C1 holds on the claim's side and fails on the code's. On the funded pool of 100 atom and
  100 osmo with 100000000 shares, \<^verbatim>\<open>ExitPool\<close> of 10000000 shares computes a
  \<^verbatim>\<open>tokenAmountOut\<close> of 10 for each asset: the bank pays 10 atom to \<open>A\<close> (910 held) and the
  escrow keeps 90. The stored balance of atom is 80: lines 454 and 455 take 10 from the
  record in the shared map, and the loop of \<^verbatim>\<open>exitPool\<close> takes 10 again.
\<close>

theorem ExitPool_decrements_twice:
  "holding (ExitPool (ledger_env 0) ''A'' 1 10000000
      [\<lparr>min_Denom = ''atom'', MinAmount = 0\<rparr>, \<lparr>min_Denom = ''osmo'', MinAmount = 0\<rparr>] funded)
      ''A'' ''atom'' = Some 910 \<and>
   holding (ExitPool (ledger_env 0) ''A'' 1 10000000
      [\<lparr>min_Denom = ''atom'', MinAmount = 0\<rparr>, \<lparr>min_Denom = ''osmo'', MinAmount = 0\<rparr>] funded)
      ''gamm'' ''atom'' = Some 90 \<and>
   balance_of (stored_in (ExitPool (ledger_env 0) ''A'' 1 10000000
      [\<lparr>min_Denom = ''atom'', MinAmount = 0\<rparr>, \<lparr>min_Denom = ''osmo'', MinAmount = 0\<rparr>] funded) 1)
      ''atom'' = Some 80 \<and>
   balance_of (kv funded 1) ''atom'' = Some 100"
  by (simp add: run_defs serve_defs)

text \<open>
  The double decrement is not particular to that input. Whenever \<^verbatim>\<open>ExitPool\<close> succeeds, the
  stored balance of every listed asset has gone down by twice the \<^verbatim>\<open>tokenAmountOut\<close>
  computed for it from the balance before the call.
\<close>

lemma checker_loop_distinct:
  "checker_loop denoms checker = Inr checker' \<Longrightarrow>
   distinct denoms \<and> (\<forall>d\<in>set denoms. map_of checker d \<noteq> Some True)"
proof (induction denoms arbitrary: checker)
  case Nil
  then show ?case by simp
next
  case (Cons d ds)
  from Cons.prems have fresh: "map_of checker d \<noteq> Some True" and
    run: "checker_loop ds (AList.update d True checker) = Inr checker'"
    by (auto split: if_splits)
  from Cons.IH [OF run] have dist: "distinct ds" and
    rest: "\<forall>d'\<in>set ds. map_of (AList.update d True checker) d' \<noteq> Some True"
    by auto
  from rest have "d \<notin> set ds" "\<forall>d'\<in>set ds. map_of checker d' \<noteq> Some True"
    by (auto simp: update_conv' split: if_splits)
  with dist fresh show ?case
    by simp
qed

lemma ExitPool_swapAmounts_listed:
  assumes "ExitPool_swapAmounts poolRatio a minAmountsOut swapAmounts h = Inr (out, h')"
    and "distinct (map min_Denom minAmountsOut)"
    and "m \<in> set minAmountsOut" and "map_of (h a) (min_Denom m) = Some r"
    and "min_Denom m \<notin> Denom ` set swapAmounts"
  shows "listed (min_Denom m) out = TruncateInt (Mul poolRatio (ToDec (Balance r)))"
  using assms
proof (induction minAmountsOut arbitrary: swapAmounts h)
  case Nil
  then show ?case by simp
next
  case (Cons x xs)
  from Cons.prems(1) obtain rcd where
    rec: "map_of (h a) (min_Denom x) = Some rcd"
    by (auto simp: Balance_ToDec_def split: sum.splits option.splits if_splits)
  define t where "t = TruncateInt (Mul poolRatio (ToDec (Balance rcd)))"
  define c where "c = \<lparr>Denom = min_Denom x, Amount = t\<rparr>"
  define h1 where "h1 = h(a := AList.update (min_Denom x) (rcd\<lparr>Balance := Balance rcd - t\<rparr>) (h a))"
  from Cons.prems(1) rec have
    run: "ExitPool_swapAmounts poolRatio a xs (swapAmounts @ [c]) h1 = Inr (out, h')"
    by (auto simp: Balance_ToDec_def t_def c_def h1_def split: if_splits)
  from Cons.prems(2) have dist: "distinct (map min_Denom xs)" and
    head: "min_Denom x \<notin> min_Denom ` set xs"
    by simp_all
  show ?case
  proof (cases "m = x")
    case True
    with rec Cons.prems(4) have same: "rcd = r"
      by simp
    from ExitPool_swapAmounts_effect [OF run] obtain new where
      out: "out = (swapAmounts @ [c]) @ new" and den: "map Denom new = map min_Denom xs"
      by blast
    have "Denom ` set new = min_Denom ` set xs"
      using den by (metis list.set_map)
    with head True have "listed (min_Denom m) new = 0"
      by (simp add: listed_absent)
    moreover have "listed (min_Denom m) swapAmounts = 0"
      using Cons.prems(5) by (simp add: listed_absent)
    ultimately show ?thesis
      using True same by (simp add: out listed_append listed_Cons c_def t_def)
  next
    case False
    with Cons.prems(3) have mem: "m \<in> set xs"
      by simp
    with head have ne: "min_Denom m \<noteq> min_Denom x"
      by (metis imageI)
    have look: "map_of (h1 a) (min_Denom m) = Some r"
      using Cons.prems(4) ne by (simp add: h1_def update_conv')
    have fresh: "min_Denom m \<notin> Denom ` set (swapAmounts @ [c])"
      using Cons.prems(5) ne by (simp add: c_def)
    from Cons.IH [OF run dist mem look fresh] show ?thesis .
  qed
qed

lemma ExitPool_double_decrement:
  assumes sp: "kv s poolId = Some sp"
    and run: "ExitPool p sender poolId poolAmountIn minAmountsOut s = Inr s'"
    and m: "m \<in> set minAmountsOut" and r: "map_of (Records sp) (min_Denom m) = Some r"
  shows "\<exists>poolRatio. Quo (ToDec poolAmountIn) (ToDec (TotalSupply (Token sp))) = Inr poolRatio \<and>
           balance_of (kv s' (Id sp)) (min_Denom m)
             = Some (Balance r - 2 * TruncateInt (Mul poolRatio (ToDec (Balance r))))"
proof -
  from FetchPool_fields [OF sp] obtain pool s1 where
    fetch: "FetchPool poolId s = Inr (pool, s1)" and token: "Token pool = Token sp" and
    recs: "heap s1 (Records pool) = Records sp" and snap: "snapshot s1 pool = sp"
    by blast
  from run fetch token obtain poolRatio checker swapAmounts h where
    quo: "Quo (ToDec poolAmountIn) (ToDec (TotalSupply (Token sp))) = Inr poolRatio" and
    chk: "checker_loop (map min_Denom minAmountsOut) [] = Inr checker" and
    amounts: "ExitPool_swapAmounts poolRatio (Records pool) minAmountsOut [] (heap s1)
                = Inr (swapAmounts, h)" and
    exit: "exitPool p sender pool poolAmountIn swapAmounts (s1\<lparr>heap := h\<rparr>) = Inr s'"
    by (auto simp: ExitPool_def split: sum.splits if_splits prod.splits)
  from checker_loop_distinct [OF chk] have dist: "distinct (map min_Denom minAmountsOut)"
    by simp
  have amount: "listed (min_Denom m) swapAmounts = TruncateInt (Mul poolRatio (ToDec (Balance r)))"
    by (rule ExitPool_swapAmounts_listed [OF amounts dist m]) (simp_all add: recs r)
  from ExitPool_swapAmounts_effect [OF amounts] have
    bal: "\<forall>d. map_of (h (Records pool)) d =
            map_option (\<lambda>r. r\<lparr>Balance := Balance r - listed d swapAmounts\<rparr>)
              (map_of (heap s1 (Records pool)) d)"
    by auto
  have first: "adjusted sp 0 (\<lambda>d. - listed d swapAmounts) (snapshot (s1\<lparr>heap := h\<rparr>) pool)"
    using bal snap by (auto simp: adjusted_def snapshot_def)
  from exitPool_effect [OF exit] obtain sp' where
    st: "stores (s1\<lparr>heap := h\<rparr>) sp' s'" and
    adj: "adjusted (snapshot (s1\<lparr>heap := h\<rparr>) pool) (- poolAmountIn)
            (\<lambda>d. - listed d swapAmounts) sp'"
    by auto
  note both = adjusted_trans [OF first adj]
  have "map_of (Records sp') (min_Denom m)
          = Some (r\<lparr>Balance := Balance r - 2 * listed (min_Denom m) swapAmounts\<rparr>)"
    using both r by (simp add: adjusted_def)
  with stored_after [OF st both] amount quo show ?thesis
    by (simp add: balance_of_def)
qed

subsection \<open>C5: the ratio caps of the single-asset joins and exits\<close>

lemma maxOutRatio_third:
  assumes "0 \<le> b"
  shows "b < 3 * t \<Longrightarrow> b * 333333333333333333 < t * 1000000000000000000"
    and "t * 1000000000000000000 \<le> b * 333333333333333333 \<Longrightarrow> 3 * t \<le> (b::int)"
  using assms by linarith+

lemma single_join_balance:
  assumes "joinPool p sender pool [\<lparr>Denom = token, Amount = t\<rparr>] swapAmount s1 = Inr s'"
    and "snapshot s1 pool = sp" and "map_of (Records sp) token = Some r"
  shows "balance_of (kv s' (Id sp)) token = Some (Balance r + t)"
proof -
  from joinPool_effect [OF assms(1)] assms(2) obtain sp' where
    st: "stores s1 sp' s'" and
    adj: "adjusted sp swapAmount (\<lambda>d. listed d [\<lparr>Denom = token, Amount = t\<rparr>]) sp'"
    by auto
  have "map_of (Records sp') token = Some (r\<lparr>Balance := Balance r + t\<rparr>)"
    using adj assms(3) by (simp add: adjusted_def listed_Cons)
  with stored_after [OF st adj] show ?thesis
    by (simp add: balance_of_def)
qed

lemma single_exit_balance:
  assumes "exitPool p sender pool swapTarget [\<lparr>Denom = token, Amount = t\<rparr>] s1 = Inr s'"
    and "snapshot s1 pool = sp" and "map_of (Records sp) token = Some r"
  shows "balance_of (kv s' (Id sp)) token = Some (Balance r - t)"
proof -
  from exitPool_effect [OF assms(1)] assms(2) obtain sp' where
    st: "stores s1 sp' s'" and
    adj: "adjusted sp (- swapTarget) (\<lambda>d. - listed d [\<lparr>Denom = token, Amount = t\<rparr>]) sp'"
    by auto
  have "map_of (Records sp') token = Some (r\<lparr>Balance := Balance r - t\<rparr>)"
    using adj assms(3) by (simp add: adjusted_def listed_Cons)
  with stored_after [OF st adj] show ?thesis
    by (simp add: balance_of_def)
qed

lemma JoinPoolWithExternAmountIn_cap:
  assumes "kv s poolId = Some sp" and "map_of (Records sp) token = Some r"
  shows "Balance r < 2 * amount \<Longrightarrow>
           JoinPoolWithExternAmountIn p sender poolId token amount limit s
             = Inl (ErrMaxInRatio ''tokenAmount exceeds max in ratio'')"
    and "JoinPoolWithExternAmountIn p sender poolId token amount limit s = Inr (res, s') \<Longrightarrow>
           2 * amount \<le> Balance r \<and> balance_of (kv s' (Id sp)) token = Some (Balance r + amount)"
proof -
  from FetchPool_fields [OF assms(1)] obtain pool s1 where
    fetch: "FetchPool poolId s = Inr (pool, s1)" and
    recs: "heap s1 (Records pool) = Records sp" and snap: "snapshot s1 pool = sp"
    by blast
  show "JoinPoolWithExternAmountIn p sender poolId token amount limit s
          = Inl (ErrMaxInRatio ''tokenAmount exceeds max in ratio'')"
    if "Balance r < 2 * amount"
    using that by (simp add: JoinPoolWithExternAmountIn_def fetch recs assms(2) GT_maxInRatio)
  show "2 * amount \<le> Balance r \<and> balance_of (kv s' (Id sp)) token = Some (Balance r + amount)"
    if run: "JoinPoolWithExternAmountIn p sender poolId token amount limit s = Inr (res, s')"
  proof -
    from run have cap: "2 * amount \<le> Balance r" and
      join: "joinPool p sender pool [\<lparr>Denom = token, Amount = amount\<rparr>] res s1 = Inr s'"
      by (auto simp: JoinPoolWithExternAmountIn_def fetch recs assms(2) GT_maxInRatio
          split: sum.splits if_splits)
    from cap single_join_balance [OF join snap assms(2)] show ?thesis
      by simp
  qed
qed

lemma JoinPoolWithPoolAmountOut_cap:
  assumes "kv s poolId = Some sp" and "map_of (Records sp) token = Some r"
    and "calcSingleInGivenPoolOut p (ToDec (Balance r)) (DenormalizedWeight r)
           (ToDec (TotalSupply (Token sp))) (TotalWeight sp) (ToDec poolAmountOut) (SwapFee sp)
         = Inr amt"
  shows "Balance r < 2 * TruncateInt amt \<Longrightarrow>
           JoinPoolWithPoolAmountOut p sender poolId token poolAmountOut limit s
             = Inl (if TruncateInt amt = 0 then ErrMathApprox ''calculate tokenAmountIn''
                    else if limit < TruncateInt amt
                      then ErrLimitIn ''tokenAmount maximum limit has exceeded''
                    else ErrMaxInRatio ''tokenAmount exceeds max in ratio'')"
    and "JoinPoolWithPoolAmountOut p sender poolId token poolAmountOut limit s = Inr (res, s') \<Longrightarrow>
           2 * TruncateInt amt \<le> Balance r \<and>
           balance_of (kv s' (Id sp)) token = Some (Balance r + TruncateInt amt)"
proof -
  from FetchPool_fields [OF assms(1)] obtain pool s1 where
    fetch: "FetchPool poolId s = Inr (pool, s1)" and
    recs: "heap s1 (Records pool) = Records sp" and snap: "snapshot s1 pool = sp" and
    fields: "Token pool = Token sp" "TotalWeight pool = TotalWeight sp" "SwapFee pool = SwapFee sp"
    by blast
  show "JoinPoolWithPoolAmountOut p sender poolId token poolAmountOut limit s
          = Inl (if TruncateInt amt = 0 then ErrMathApprox ''calculate tokenAmountIn''
                 else if limit < TruncateInt amt
                   then ErrLimitIn ''tokenAmount maximum limit has exceeded''
                 else ErrMaxInRatio ''tokenAmount exceeds max in ratio'')"
    if "Balance r < 2 * TruncateInt amt"
    using that
    by (simp add: JoinPoolWithPoolAmountOut_def fetch recs fields assms(2,3) GT_maxInRatio)
  show "2 * TruncateInt amt \<le> Balance r \<and>
        balance_of (kv s' (Id sp)) token = Some (Balance r + TruncateInt amt)"
    if run: "JoinPoolWithPoolAmountOut p sender poolId token poolAmountOut limit s = Inr (res, s')"
  proof -
    from run have cap: "2 * TruncateInt amt \<le> Balance r" and
      join: "joinPool p sender pool [\<lparr>Denom = token, Amount = TruncateInt amt\<rparr>] poolAmountOut s1
               = Inr s'"
      by (auto simp: JoinPoolWithPoolAmountOut_def fetch recs fields assms(2,3) GT_maxInRatio
          split: sum.splits if_splits)
    from cap single_join_balance [OF join snap assms(2)] show ?thesis
      by simp
  qed
qed

lemma ExitPoolWithPoolAmountIn_cap:
  assumes "kv s poolId = Some sp" and "map_of (Records sp) token = Some r"
    and "calcSingleOutGivenPoolIn p (ToDec (Balance r)) (DenormalizedWeight r)
           (ToDec (TotalSupply (Token sp))) (TotalWeight sp) (ToDec poolAmountIn) (SwapFee sp)
         = Inr amt"
  shows "Balance r * 333333333333333333 < TruncateInt amt * 1000000000000000000 \<Longrightarrow>
           ExitPoolWithPoolAmountIn p sender poolId token poolAmountIn limit s
             = Inl (if TruncateInt amt < limit
                      then ErrLimitOut ''tokenAmount minimum limit has exceeded''
                    else ErrMaxOutRatio ''tokenAmount exceeds max out ratio'')"
    and "ExitPoolWithPoolAmountIn p sender poolId token poolAmountIn limit s = Inr (res, s') \<Longrightarrow>
           res = TruncateInt amt \<and>
           res * 1000000000000000000 \<le> Balance r * 333333333333333333 \<and>
           balance_of (kv s' (Id sp)) token = Some (Balance r - res)"
proof -
  from FetchPool_fields [OF assms(1)] obtain pool s1 where
    fetch: "FetchPool poolId s = Inr (pool, s1)" and
    recs: "heap s1 (Records pool) = Records sp" and snap: "snapshot s1 pool = sp" and
    fields: "Token pool = Token sp" "TotalWeight pool = TotalWeight sp" "SwapFee pool = SwapFee sp"
    by blast
  show "ExitPoolWithPoolAmountIn p sender poolId token poolAmountIn limit s
          = Inl (if TruncateInt amt < limit
                   then ErrLimitOut ''tokenAmount minimum limit has exceeded''
                 else ErrMaxOutRatio ''tokenAmount exceeds max out ratio'')"
    if "Balance r * 333333333333333333 < TruncateInt amt * 1000000000000000000"
    using that
    by (simp add: ExitPoolWithPoolAmountIn_def fetch recs fields assms(2,3) GT_maxOutRatio)
  show "res = TruncateInt amt \<and>
        res * 1000000000000000000 \<le> Balance r * 333333333333333333 \<and>
        balance_of (kv s' (Id sp)) token = Some (Balance r - res)"
    if run: "ExitPoolWithPoolAmountIn p sender poolId token poolAmountIn limit s = Inr (res, s')"
  proof -
    from run have res: "res = TruncateInt amt" and
      cap: "TruncateInt amt * 1000000000000000000 \<le> Balance r * 333333333333333333" and
      exit: "exitPool p sender pool poolAmountIn [\<lparr>Denom = token, Amount = TruncateInt amt\<rparr>] s1
               = Inr s'"
      by (auto simp: ExitPoolWithPoolAmountIn_def fetch recs fields assms(2,3) GT_maxOutRatio
          split: sum.splits if_splits)
    from res cap single_exit_balance [OF exit snap assms(2)] show ?thesis
      by simp
  qed
qed

lemma ExitPoolWithExternAmountOut_cap:
  assumes "kv s poolId = Some sp" and "map_of (Records sp) token = Some r"
  shows "Balance r * 333333333333333333 < amount * 1000000000000000000 \<Longrightarrow>
           ExitPoolWithExternAmountOut p sender poolId token amount limit s
             = Inl (ErrMaxOutRatio ''tokenAmount exceeds max out ratio'')"
    and "ExitPoolWithExternAmountOut p sender poolId token amount limit s = Inr (res, s') \<Longrightarrow>
           amount * 1000000000000000000 \<le> Balance r * 333333333333333333 \<and>
           balance_of (kv s' (Id sp)) token = Some (Balance r - amount)"
proof -
  from FetchPool_fields [OF assms(1)] obtain pool s1 where
    fetch: "FetchPool poolId s = Inr (pool, s1)" and
    recs: "heap s1 (Records pool) = Records sp" and snap: "snapshot s1 pool = sp"
    by blast
  show "ExitPoolWithExternAmountOut p sender poolId token amount limit s
          = Inl (ErrMaxOutRatio ''tokenAmount exceeds max out ratio'')"
    if "Balance r * 333333333333333333 < amount * 1000000000000000000"
    using that by (simp add: ExitPoolWithExternAmountOut_def fetch recs assms(2) GT_maxOutRatio)
  show "amount * 1000000000000000000 \<le> Balance r * 333333333333333333 \<and>
        balance_of (kv s' (Id sp)) token = Some (Balance r - amount)"
    if run: "ExitPoolWithExternAmountOut p sender poolId token amount limit s = Inr (res, s')"
  proof -
    from run have cap: "amount * 1000000000000000000 \<le> Balance r * 333333333333333333" and
      exit: "exitPool p sender pool res [\<lparr>Denom = token, Amount = amount\<rparr>] s1 = Inr s'"
      by (auto simp: ExitPoolWithExternAmountOut_def fetch recs assms(2) GT_maxOutRatio
          split: sum.splits if_splits)
    from cap single_exit_balance [OF exit snap assms(2)] show ?thesis
      by simp
  qed
qed

text \<open>
  C5, as the claim states it, fails in its last clause. On the funded pool of 100 atom,
  \<^verbatim>\<open>JoinPoolWithPoolAmountOut\<close> for 50000000 shares with \<^verbatim>\<open>maxAmountIn\<close> = 10 needs 125
  atom (the formula of the spec gives \<open>(1.5\<^sup>2 - 1) \<cdot> 100 / 0.995\<close>, truncated), more than
  half of the balance; the call fails with LimitIn, the check of line 337, not with
  MaxInRatio.
\<close>

theorem JoinPoolWithPoolAmountOut_LimitIn:
  "balance_of (kv funded 1) ''atom'' = Some 100 \<and>
   calcSingleInGivenPoolOut (ledger_env 125) (ToDec 100) (NewDec 1) (ToDec 100000000) (NewDec 2)
     (ToDec 50000000) (Dec 10000000000000000) = Inr (ToDec 125) \<and>
   failure (JoinPoolWithPoolAmountOut (ledger_env 125) ''A'' 1 ''atom'' 50000000 10 funded)
     = Some (ErrLimitIn ''tokenAmount maximum limit has exceeded'')"
  by (simp add: run_defs serve_defs)

text \<open>
  C5, amended. Let the pool \<open>sp\<close> be stored under \<open>poolId\<close> with the record \<open>r\<close> for the
  token. A successful single-asset join adds the deposited amount to the stored balance,
  and the amount is at most half of \<open>Balance r\<close>. A successful single-asset exit takes the
  released amount from the stored balance, and the amount is at most
  \<open>Balance r \<cdot> 0.333333333333333333\<close>, hence at most a third of a balance that is not
  negative. An amount beyond the cap fails: with MaxInRatio or MaxOutRatio in
  \<^verbatim>\<open>JoinPoolWithExternAmountIn\<close> and \<^verbatim>\<open>ExitPoolWithExternAmountOut\<close>, where the cap is the
  first check after the lookup; in \<^verbatim>\<open>JoinPoolWithPoolAmountOut\<close> and
  \<^verbatim>\<open>ExitPoolWithPoolAmountIn\<close> the computed amount is first checked against zero
  (MathApprox, join only) and against the caller's limit (LimitIn, LimitOut), and only then
  against the cap.
\<close>

theorem single_asset_ratio_caps:
  assumes "kv s poolId = Some sp" and "map_of (Records sp) token = Some r"
  shows
    "(JoinPoolWithExternAmountIn p sender poolId token amount limit s = Inr (res, s') \<longrightarrow>
        2 * amount \<le> Balance r \<and>
        balance_of (kv s' (Id sp)) token = Some (Balance r + amount)) \<and>
     (Balance r < 2 * amount \<longrightarrow>
        JoinPoolWithExternAmountIn p sender poolId token amount limit s
          = Inl (ErrMaxInRatio ''tokenAmount exceeds max in ratio'')) \<and>
     (JoinPoolWithPoolAmountOut p sender poolId token shares limit s = Inr (res, s') \<longrightarrow>
        (\<exists>t. 2 * t \<le> Balance r \<and> balance_of (kv s' (Id sp)) token = Some (Balance r + t))) \<and>
     (calcSingleInGivenPoolOut p (ToDec (Balance r)) (DenormalizedWeight r)
          (ToDec (TotalSupply (Token sp))) (TotalWeight sp) (ToDec shares) (SwapFee sp) = Inr amt \<and>
        Balance r < 2 * TruncateInt amt \<longrightarrow>
        JoinPoolWithPoolAmountOut p sender poolId token shares limit s
          = Inl (if TruncateInt amt = 0 then ErrMathApprox ''calculate tokenAmountIn''
                 else if limit < TruncateInt amt
                   then ErrLimitIn ''tokenAmount maximum limit has exceeded''
                 else ErrMaxInRatio ''tokenAmount exceeds max in ratio'')) \<and>
     (ExitPoolWithPoolAmountIn p sender poolId token shares limit s = Inr (res, s') \<longrightarrow>
        res * 1000000000000000000 \<le> Balance r * 333333333333333333 \<and>
        (0 \<le> Balance r \<longrightarrow> 3 * res \<le> Balance r) \<and>
        balance_of (kv s' (Id sp)) token = Some (Balance r - res)) \<and>
     (calcSingleOutGivenPoolIn p (ToDec (Balance r)) (DenormalizedWeight r)
          (ToDec (TotalSupply (Token sp))) (TotalWeight sp) (ToDec shares) (SwapFee sp) = Inr amt \<and>
        (Balance r * 333333333333333333 < TruncateInt amt * 1000000000000000000 \<or>
         0 \<le> Balance r \<and> Balance r < 3 * TruncateInt amt) \<longrightarrow>
        ExitPoolWithPoolAmountIn p sender poolId token shares limit s
          = Inl (if TruncateInt amt < limit
                   then ErrLimitOut ''tokenAmount minimum limit has exceeded''
                 else ErrMaxOutRatio ''tokenAmount exceeds max out ratio'')) \<and>
     (ExitPoolWithExternAmountOut p sender poolId token amount limit s = Inr (res, s') \<longrightarrow>
        amount * 1000000000000000000 \<le> Balance r * 333333333333333333 \<and>
        (0 \<le> Balance r \<longrightarrow> 3 * amount \<le> Balance r) \<and>
        balance_of (kv s' (Id sp)) token = Some (Balance r - amount)) \<and>
     (Balance r * 333333333333333333 < amount * 1000000000000000000 \<or>
        0 \<le> Balance r \<and> Balance r < 3 * amount \<longrightarrow>
        ExitPoolWithExternAmountOut p sender poolId token amount limit s
          = Inl (ErrMaxOutRatio ''tokenAmount exceeds max out ratio''))"
proof -
  note fetch = FetchPool_fields [OF assms(1)]
  have c1: "2 * amount \<le> Balance r \<and>
      balance_of (kv s' (Id sp)) token = Some (Balance r + amount)"
    if "JoinPoolWithExternAmountIn p sender poolId token amount limit s = Inr (res, s')"
    by (rule JoinPoolWithExternAmountIn_cap(2) [OF assms that])
  have c2: "JoinPoolWithExternAmountIn p sender poolId token amount limit s
      = Inl (ErrMaxInRatio ''tokenAmount exceeds max in ratio'')"
    if "Balance r < 2 * amount"
    by (rule JoinPoolWithExternAmountIn_cap(1) [OF assms that])
  have c3: "\<exists>t. 2 * t \<le> Balance r \<and> balance_of (kv s' (Id sp)) token = Some (Balance r + t)"
    if run: "JoinPoolWithPoolAmountOut p sender poolId token shares limit s = Inr (res, s')"
  proof -
    from fetch run assms(2) obtain a where
      "calcSingleInGivenPoolOut p (ToDec (Balance r)) (DenormalizedWeight r)
         (ToDec (TotalSupply (Token sp))) (TotalWeight sp) (ToDec shares) (SwapFee sp) = Inr a"
      by (auto simp: JoinPoolWithPoolAmountOut_def split: sum.splits)
    from JoinPoolWithPoolAmountOut_cap(2) [OF assms this run] show ?thesis
      by blast
  qed
  have c4: "JoinPoolWithPoolAmountOut p sender poolId token shares limit s
      = Inl (if TruncateInt amt = 0 then ErrMathApprox ''calculate tokenAmountIn''
             else if limit < TruncateInt amt
               then ErrLimitIn ''tokenAmount maximum limit has exceeded''
             else ErrMaxInRatio ''tokenAmount exceeds max in ratio'')"
    if "calcSingleInGivenPoolOut p (ToDec (Balance r)) (DenormalizedWeight r)
          (ToDec (TotalSupply (Token sp))) (TotalWeight sp) (ToDec shares) (SwapFee sp) = Inr amt"
      and "Balance r < 2 * TruncateInt amt"
    by (rule JoinPoolWithPoolAmountOut_cap(1) [OF assms that])
  have c5: "res * 1000000000000000000 \<le> Balance r * 333333333333333333 \<and>
      (0 \<le> Balance r \<longrightarrow> 3 * res \<le> Balance r) \<and>
      balance_of (kv s' (Id sp)) token = Some (Balance r - res)"
    if run: "ExitPoolWithPoolAmountIn p sender poolId token shares limit s = Inr (res, s')"
  proof -
    from fetch run assms(2) obtain a where
      "calcSingleOutGivenPoolIn p (ToDec (Balance r)) (DenormalizedWeight r)
         (ToDec (TotalSupply (Token sp))) (TotalWeight sp) (ToDec shares) (SwapFee sp) = Inr a"
      by (auto simp: ExitPoolWithPoolAmountIn_def split: sum.splits)
    from ExitPoolWithPoolAmountIn_cap(2) [OF assms this run] show ?thesis
      using maxOutRatio_third(2) [of "Balance r" res] by blast
  qed
  have c6: "ExitPoolWithPoolAmountIn p sender poolId token shares limit s
      = Inl (if TruncateInt amt < limit
               then ErrLimitOut ''tokenAmount minimum limit has exceeded''
             else ErrMaxOutRatio ''tokenAmount exceeds max out ratio'')"
    if calc: "calcSingleOutGivenPoolIn p (ToDec (Balance r)) (DenormalizedWeight r)
          (ToDec (TotalSupply (Token sp))) (TotalWeight sp) (ToDec shares) (SwapFee sp) = Inr amt"
      and over: "Balance r * 333333333333333333 < TruncateInt amt * 1000000000000000000 \<or>
         0 \<le> Balance r \<and> Balance r < 3 * TruncateInt amt"
  proof -
    from over have "Balance r * 333333333333333333 < TruncateInt amt * 1000000000000000000"
      using maxOutRatio_third(1) [of "Balance r" "TruncateInt amt"] by blast
    then show ?thesis
      by (rule ExitPoolWithPoolAmountIn_cap(1) [OF assms calc])
  qed
  have c7: "amount * 1000000000000000000 \<le> Balance r * 333333333333333333 \<and>
      (0 \<le> Balance r \<longrightarrow> 3 * amount \<le> Balance r) \<and>
      balance_of (kv s' (Id sp)) token = Some (Balance r - amount)"
    if run: "ExitPoolWithExternAmountOut p sender poolId token amount limit s = Inr (res, s')"
    using ExitPoolWithExternAmountOut_cap(2) [OF assms run]
      maxOutRatio_third(2) [of "Balance r" amount] by blast
  have c8: "ExitPoolWithExternAmountOut p sender poolId token amount limit s
      = Inl (ErrMaxOutRatio ''tokenAmount exceeds max out ratio'')"
    if over: "Balance r * 333333333333333333 < amount * 1000000000000000000 \<or>
        0 \<le> Balance r \<and> Balance r < 3 * amount"
  proof -
    from over have "Balance r * 333333333333333333 < amount * 1000000000000000000"
      using maxOutRatio_third(1) [of "Balance r" amount] by blast
    then show ?thesis
      by (rule ExitPoolWithExternAmountOut_cap(1) [OF assms])
  qed
  from c1 c2 c3 c4 c5 c6 c7 c8 show ?thesis
    by blast
qed

text \<open>
  On the funded pool of 100 atom: a deposit of 10 atom succeeds and the balance becomes
  110, a deposit of 60 atom fails with MaxInRatio (scenario S3); a release of 19 atom
  succeeds and the balance becomes 81, a release of 40 atom fails with MaxOutRatio.
\<close>

theorem single_asset_ratio_caps_witness:
  "kv funded 1 = Some pool1 \<and>
   map_of (Records pool1) ''atom'' = Some \<lparr>DenormalizedWeight = NewDec 1, Balance = 100\<rparr> \<and>
   (\<exists>s'. JoinPoolWithExternAmountIn (ledger_env 4880884) ''A'' 1 ''atom'' 10 0 funded
            = Inr (4880884, s') \<and>
          balance_of (kv s' 1) ''atom'' = Some 110) \<and>
   JoinPoolWithExternAmountIn (ledger_env 4880884) ''A'' 1 ''atom'' 60 0 funded
     = Inl (ErrMaxInRatio ''tokenAmount exceeds max in ratio'') \<and>
   (\<exists>s'. ExitPoolWithExternAmountOut (ledger_env 10000000) ''A'' 1 ''atom'' 19 100000000 funded
            = Inr (10000000, s') \<and>
          balance_of (kv s' 1) ''atom'' = Some 81) \<and>
   ExitPoolWithExternAmountOut (ledger_env 10000000) ''A'' 1 ''atom'' 40 100000000 funded
     = Inl (ErrMaxOutRatio ''tokenAmount exceeds max out ratio'')"
proof -
  have held: "kv funded 1 = Some pool1"
    by (simp add: funded_def)
  have atom: "map_of (Records pool1) ''atom'' = Some \<lparr>DenormalizedWeight = NewDec 1, Balance = 100\<rparr>"
    by (simp add: pool1_def)
  have id: "Id pool1 = 1"
    by (simp add: pool1_def)
  note inst = single_asset_ratio_caps [OF held atom, unfolded id]
  have "\<exists>s'. JoinPoolWithExternAmountIn (ledger_env 4880884) ''A'' 1 ''atom'' 10 0 funded
            = Inr (4880884, s')"
    by (simp add: run_defs)
  then have w1: "\<exists>s'. JoinPoolWithExternAmountIn (ledger_env 4880884) ''A'' 1 ''atom'' 10 0 funded
            = Inr (4880884, s') \<and>
          balance_of (kv s' 1) ''atom'' = Some 110"
    using inst [THEN conjunct1] by fastforce
  have w2: "JoinPoolWithExternAmountIn (ledger_env 4880884) ''A'' 1 ''atom'' 60 0 funded
     = Inl (ErrMaxInRatio ''tokenAmount exceeds max in ratio'')"
    using inst [THEN conjunct2, THEN conjunct1, of 60] by simp
  have "\<exists>s'. ExitPoolWithExternAmountOut (ledger_env 10000000) ''A'' 1 ''atom'' 19 100000000 funded
            = Inr (10000000, s')"
    by (simp add: run_defs)
  then have w3: "\<exists>s'. ExitPoolWithExternAmountOut (ledger_env 10000000) ''A'' 1 ''atom'' 19 100000000
            funded = Inr (10000000, s') \<and>
          balance_of (kv s' 1) ''atom'' = Some 81"
    using inst [THEN conjunct2, THEN conjunct2, THEN conjunct2, THEN conjunct2, THEN conjunct2,
        THEN conjunct2, THEN conjunct1]
    by fastforce
  have w4: "ExitPoolWithExternAmountOut (ledger_env 10000000) ''A'' 1 ''atom'' 40 100000000 funded
     = Inl (ErrMaxOutRatio ''tokenAmount exceeds max out ratio'')"
    using inst [THEN conjunct2, THEN conjunct2, THEN conjunct2, THEN conjunct2, THEN conjunct2,
        THEN conjunct2, THEN conjunct2, of 40]
    by simp
  from held atom w1 w2 w3 w4 show ?thesis
    by blast
qed

end
